theory Spec2Isabelle
  imports Main "HOL-Library.Sublist"
begin

section \<open>Data model of the submission routes\<close>

text \<open>
  The Submission document as the route module \<^verbatim>\<open>routes/submissionRoutes\<close> reads and
  writes it. The status and grade enumerations are those of the Submission schema
  published in \<^verbatim>\<open>config/swagger.ts\<close>. \<open>sid\<close> is the document's \<^verbatim>\<open>_id\<close>; object ids are
  numbered, and a new document gets an id no stored document has. Path parameters are
  taken to be well-formed ids.
\<close>

datatype status = Uploading | Installing | Testing | Reviewing | Reporting | Completed | Failed

datatype grade = Pending | Pass | Fail

record scores =
  total_score :: nat
  testScore :: nat
  qualityScore :: nat

record submission =
  sid :: nat
  githubUrl :: string
  projectType :: string
  userId :: string
  status :: status
  grade :: grade
  scores :: "scores option"
  report :: "string option"
  error :: "string option"
  createdAt :: nat

record user =
  uid :: string
  email :: string
  role :: string

text \<open>
  The two collections. Submissions are kept in insertion order; users are looked up by id.
  A database operation either succeeds or throws; which of the two happens is decided by
  the environment and is an explicit argument of every handler.
\<close>

type_synonym store = "submission list"

type_synonym users = "string \<rightharpoonup> user"

datatype db = DbOk | DbFail string

definition findById :: "store \<Rightarrow> nat \<Rightarrow> submission option" where
  "findById st i = find (\<lambda>s. sid s = i) st"

definition save :: "submission \<Rightarrow> store \<Rightarrow> store" where
  "save d st =
     (case findById st (sid d) of
        Some _ \<Rightarrow> map (\<lambda>s. if sid s = sid d then d else s) st
      | None \<Rightarrow> st @ [d])"

definition findByIdAndDelete :: "store \<Rightarrow> nat \<Rightarrow> store" where
  "findByIdAndDelete st i = filter (\<lambda>s. sid s \<noteq> i) st"

definition fresh_id :: "store \<Rightarrow> nat" where
  "fresh_id st = Suc (foldr max (map sid st) 0)"

text \<open>
  A request: the Authorization header, the \<^verbatim>\<open>:id\<close> path parameter, and the body (or
  query) the route reads.
\<close>

record 'b request =
  authorization :: "string option"
  params_id :: nat
  body :: 'b

text \<open>
  The answers of the routes: \<open>ErrorJson n msg\<close> is status \<open>n\<close> with \<^verbatim>\<open>{error: msg}\<close>,
  \<open>Accepted i\<close> is the 202 with \<^verbatim>\<open>{submissionId: i}\<close>, \<open>ReportFile i r\<close> is the markdown
  attachment of submission \<open>i\<close>, \<open>SendText n t\<close> is status \<open>n\<close> with a plain text, and
  \<open>NextError msg\<close> is \<^verbatim>\<open>next(error)\<close>, which hands the error to the error middleware.
\<close>

datatype response =
    ErrorJson nat string
  | Accepted nat
  | SubmissionJson submission
  | SubmissionList "(submission \<times> string) list"
  | ReportFile nat string
  | SendText nat string
  | MessageJson string
  | NextError string

section \<open>Middleware\<close>

text \<open>
  \<^verbatim>\<open>getUserFromToken\<close>: \<^verbatim>\<open>jwt.verify\<close> is the library's; it is a parameter that maps a
  token to the \<^verbatim>\<open>userId\<close> of its payload, or to nothing when it throws. Every failure,
  a throwing database lookup included, ends in a 401.
\<close>

definition getUserFromToken ::
  "(string \<Rightarrow> string option) \<Rightarrow> users \<Rightarrow> db \<Rightarrow> string option \<Rightarrow> response + user" where
  "getUserFromToken jwt_verify us dbu auth =
     (case auth of
        None \<Rightarrow> Inl (ErrorJson 401 ''No token'')
      | Some a \<Rightarrow>
          if a = [] \<or> \<not> prefix ''Bearer '' a then Inl (ErrorJson 401 ''No token'')
          else (case jwt_verify (drop 7 a) of
                  None \<Rightarrow> Inl (ErrorJson 401 ''Invalid token'')
                | Some payload_userId \<Rightarrow>
                    (case dbu of
                       DbFail _ \<Rightarrow> Inl (ErrorJson 401 ''Invalid token'')
                     | DbOk \<Rightarrow>
                        (case us payload_userId of
                           None \<Rightarrow> Inl (ErrorJson 401 ''User not found'')
                         | Some u \<Rightarrow> Inr u))))"

definition requireAdmin :: "user \<Rightarrow> response + user" where
  "requireAdmin u = (if role u \<noteq> ''admin'' then Inl (ErrorJson 403 ''Admin access required'') else Inr u)"

section \<open>Routes\<close>

subsection \<open>POST /grade\<close>

text \<open>
  The handler runs in one turn of the event loop: it saves the new document, calls
  \<^verbatim>\<open>gradingService.gradeSubmission\<close>, registers the two continuations on the returned
  promise and sends the 202. The continuations run in a later turn, when the promise
  settles. The handler's result is therefore the response, the store, and the document
  whose promise chain is now pending.
\<close>

record grade_body =
  b_githubUrl :: string
  b_projectType :: string
  b_fileGlobs :: "string list option"

definition new_submission :: "nat \<Rightarrow> nat \<Rightarrow> grade_body \<Rightarrow> string \<Rightarrow> submission" where
  "new_submission i now b u =
     \<lparr>sid = i, githubUrl = b_githubUrl b, projectType = b_projectType b, userId = u,
      status = Uploading, grade = Pending, scores = None, report = None, error = None,
      createdAt = now\<rparr>"

definition grade_handler ::
  "db \<Rightarrow> nat \<Rightarrow> user \<Rightarrow> grade_body \<Rightarrow> store \<Rightarrow> response \<times> store \<times> submission option" where
  "grade_handler dbs now u b st =
     (if uid u = [] then (ErrorJson 401 ''User not authenticated'', st, None)
      else
        let d = new_submission (fresh_id st) now b (uid u) in
        (case dbs of
           DbFail m \<Rightarrow> (NextError m, st, None)
         | DbOk \<Rightarrow> (Accepted (sid d), save d st, Some d)))"

definition route_post_grade ::
  "(string \<Rightarrow> string option) \<Rightarrow> users \<Rightarrow> db \<Rightarrow> db \<Rightarrow> nat \<Rightarrow> grade_body request \<Rightarrow> store
     \<Rightarrow> response \<times> store \<times> submission option" where
  "route_post_grade jwt_verify us dbu dbs now req st =
     (case getUserFromToken jwt_verify us dbu (authorization req) of
        Inl r \<Rightarrow> (r, st, None)
      | Inr u \<Rightarrow> grade_handler dbs now u (body req) st)"

text \<open>
  The promise returned by \<^verbatim>\<open>gradeSubmission\<close> settles with a result or with an error.
  \<^verbatim>\<open>.then(f).catch(g)\<close>: \<open>g\<close> also receives what \<open>f\<close> throws, so a failing save in
  the success continuation is followed by the failure continuation on the same document.
  The last component tells whether the chain ended in an unhandled rejection.
\<close>

record grading_result =
  r_grade :: grade
  r_scores :: scores
  r_report :: "string option"

datatype outcome = Resolved grading_result | Rejected string

definition on_fulfilled :: "grading_result \<Rightarrow> submission \<Rightarrow> submission" where
  "on_fulfilled r d =
     d\<lparr>status := Completed, grade := r_grade r, scores := Some (r_scores r), report := r_report r\<rparr>"

definition on_rejected :: "string \<Rightarrow> submission \<Rightarrow> submission" where
  "on_rejected msg d = d\<lparr>status := Failed, error := Some msg\<rparr>"

definition catch_handler :: "db \<Rightarrow> string \<Rightarrow> submission \<Rightarrow> store \<Rightarrow> submission \<times> store \<times> bool" where
  "catch_handler dbs msg d st =
     (let d' = on_rejected msg d in
      case dbs of DbOk \<Rightarrow> (d', save d' st, False) | DbFail _ \<Rightarrow> (d', st, True))"

definition settle :: "outcome \<Rightarrow> db \<Rightarrow> db \<Rightarrow> submission \<Rightarrow> store \<Rightarrow> submission \<times> store \<times> bool" where
  "settle out dbs1 dbs2 d st =
     (case out of
        Resolved r \<Rightarrow>
          (let d' = on_fulfilled r d in
           case dbs1 of
             DbOk \<Rightarrow> (d', save d' st, False)
           | DbFail m \<Rightarrow> catch_handler dbs2 m d' st)
      | Rejected msg \<Rightarrow> catch_handler dbs2 msg d st)"

subsection \<open>GET /, GET /:id, GET /:id/report.md\<close>

text \<open>
  The query of the listing: a filter is applied when its parameter is truthy; the result is
  sorted newest first, then \<^verbatim>\<open>skip\<close> (default 0) and \<^verbatim>\<open>limit\<close> (default 50; a limit of 0
  is no limit) are applied.
\<close>

record list_query =
  q_userId :: "string option"
  q_status :: "string option"
  q_limit :: "nat option"
  q_skip :: "nat option"

fun string_of_status :: "status \<Rightarrow> string" where
  "string_of_status Uploading = ''uploading''"
| "string_of_status Installing = ''installing''"
| "string_of_status Testing = ''testing''"
| "string_of_status Reviewing = ''reviewing''"
| "string_of_status Reporting = ''reporting''"
| "string_of_status Completed = ''completed''"
| "string_of_status Failed = ''failed''"

definition truthy :: "string option \<Rightarrow> bool" where
  "truthy v = (case v of None \<Rightarrow> False | Some x \<Rightarrow> x \<noteq> [])"

definition matches :: "list_query \<Rightarrow> submission \<Rightarrow> bool" where
  "matches q s =
     ((if truthy (q_userId q) then Some (userId s) = q_userId q else True) \<and>
      (if truthy (q_status q) then Some (string_of_status (status s)) = q_status q else True))"

definition limit_docs :: "nat \<Rightarrow> 'a list \<Rightarrow> 'a list" where
  "limit_docs n xs = (if n = 0 then xs else take n xs)"

definition find_submissions :: "list_query \<Rightarrow> store \<Rightarrow> submission list" where
  "find_submissions q st =
     limit_docs (case q_limit q of None \<Rightarrow> 50 | Some n \<Rightarrow> n)
       (drop (case q_skip q of None \<Rightarrow> 0 | Some n \<Rightarrow> n)
          (rev (sort_key createdAt (filter (matches q) st))))"

definition userEmail :: "users \<Rightarrow> submission \<Rightarrow> string" where
  "userEmail us s =
     (case us (userId s) of
        None \<Rightarrow> userId s
      | Some u \<Rightarrow> if email u = [] then userId s else email u)"

definition route_get_list :: "db \<Rightarrow> users \<Rightarrow> list_query request \<Rightarrow> store \<Rightarrow> response" where
  "route_get_list dbf us req st =
     (case dbf of
        DbFail m \<Rightarrow> NextError m
      | DbOk \<Rightarrow> SubmissionList (map (\<lambda>s. (s, userEmail us s)) (find_submissions (body req) st)))"

definition route_get_by_id :: "db \<Rightarrow> 'b request \<Rightarrow> store \<Rightarrow> response" where
  "route_get_by_id dbf req st =
     (case dbf of
        DbFail m \<Rightarrow> NextError m
      | DbOk \<Rightarrow>
          (case findById st (params_id req) of
             None \<Rightarrow> ErrorJson 404 ''Submission not found''
           | Some s \<Rightarrow> SubmissionJson s))"

definition route_get_report :: "db \<Rightarrow> 'b request \<Rightarrow> store \<Rightarrow> response" where
  "route_get_report dbf req st =
     (case dbf of
        DbFail m \<Rightarrow> NextError m
      | DbOk \<Rightarrow>
          (case findById st (params_id req) of
             None \<Rightarrow> SendText 404 ''Report not found''
           | Some s \<Rightarrow>
               if truthy (report s) then ReportFile (sid s) (the (report s))
               else SendText 404 ''Report not found''))"

subsection \<open>PATCH /:id and DELETE /:id\<close>

text \<open>
  The body's fields arrive as strings. A field is assigned when it is truthy; a value
  outside the schema's enumeration makes \<^verbatim>\<open>save\<close> throw a validation error, which the
  handler answers with a 500.
\<close>

record patch_body =
  p_status :: "string option"
  p_grade :: "string option"
  p_error :: "string option"

definition status_of_string :: "string \<Rightarrow> status option" where
  "status_of_string x =
     find (\<lambda>s. string_of_status s = x)
       [Uploading, Installing, Testing, Reviewing, Reporting, Completed, Failed]"

definition grade_of_string :: "string \<Rightarrow> grade option" where
  "grade_of_string x =
     (if x = ''pending'' then Some Pending else if x = ''pass'' then Some Pass
      else if x = ''fail'' then Some Fail else None)"

definition apply_patch :: "patch_body \<Rightarrow> submission \<Rightarrow> submission option" where
  "apply_patch b s =
     (case (if truthy (p_status b) then status_of_string (the (p_status b)) else Some (status s)) of
        None \<Rightarrow> None
      | Some st' \<Rightarrow>
          (case (if truthy (p_grade b) then grade_of_string (the (p_grade b)) else Some (grade s)) of
             None \<Rightarrow> None
           | Some g' \<Rightarrow>
               Some (s\<lparr>status := st', grade := g',
                       error := (if truthy (p_error b) then p_error b else error s)\<rparr>)))"

definition patch_handler :: "db \<Rightarrow> db \<Rightarrow> nat \<Rightarrow> patch_body \<Rightarrow> store \<Rightarrow> response \<times> store" where
  "patch_handler dbf dbs i b st =
     (case dbf of
        DbFail _ \<Rightarrow> (ErrorJson 500 ''Failed to update submission'', st)
      | DbOk \<Rightarrow>
          (case findById st i of
             None \<Rightarrow> (ErrorJson 404 ''Submission not found'', st)
           | Some s \<Rightarrow>
               (case apply_patch b s of
                  None \<Rightarrow> (ErrorJson 500 ''Failed to update submission'', st)
                | Some s' \<Rightarrow>
                    (case dbs of
                       DbFail _ \<Rightarrow> (ErrorJson 500 ''Failed to update submission'', st)
                     | DbOk \<Rightarrow> (SubmissionJson s', save s' st)))))"

definition route_patch ::
  "(string \<Rightarrow> string option) \<Rightarrow> users \<Rightarrow> db \<Rightarrow> db \<Rightarrow> db \<Rightarrow> patch_body request \<Rightarrow> store
     \<Rightarrow> response \<times> store" where
  "route_patch jwt_verify us dbu dbf dbs req st =
     (case getUserFromToken jwt_verify us dbu (authorization req) of
        Inl r \<Rightarrow> (r, st)
      | Inr u \<Rightarrow>
          (case requireAdmin u of
             Inl r \<Rightarrow> (r, st)
           | Inr _ \<Rightarrow> patch_handler dbf dbs (params_id req) (body req) st))"

definition delete_handler :: "db \<Rightarrow> nat \<Rightarrow> store \<Rightarrow> response \<times> store" where
  "delete_handler dbf i st =
     (case dbf of
        DbFail _ \<Rightarrow> (ErrorJson 500 ''Failed to delete submission'', st)
      | DbOk \<Rightarrow>
          (case findById st i of
             None \<Rightarrow> (ErrorJson 404 ''Submission not found'', st)
           | Some _ \<Rightarrow> (MessageJson ''Submission deleted'', findByIdAndDelete st i)))"

definition route_delete ::
  "(string \<Rightarrow> string option) \<Rightarrow> users \<Rightarrow> db \<Rightarrow> db \<Rightarrow> 'b request \<Rightarrow> store \<Rightarrow> response \<times> store" where
  "route_delete jwt_verify us dbu dbf req st =
     (case getUserFromToken jwt_verify us dbu (authorization req) of
        Inl r \<Rightarrow> (r, st)
      | Inr u \<Rightarrow>
          (case requireAdmin u of
             Inl r \<Rightarrow> (r, st)
           | Inr _ \<Rightarrow> delete_handler dbf (params_id req) st))"

subsection \<open>The pipeline behind \<^verbatim>\<open>gradeSubmission\<close>\<close>

text \<open>
  Modelled from the spec: \<^verbatim>\<open>services/gradingService\<close> (the Phase Executor) is not among the
  sources. Section 4.2 of the specification gives its contract: the phases run in the
  order uploading, installing, testing, reviewing, reporting; a phase that succeeds
  commits the next status to the Result Store; a phase that fails ends the run with its
  error, and no further phase runs; after the reporting phase the run resolves with the
  aggregated result. \<open>fails p\<close> is the error of phase \<open>p\<close>, if it has one. The function
  returns the outcome of the promise, the document as the run left it, the store, and the
  documents it committed, in order.
\<close>

fun run_phases ::
  "(status \<Rightarrow> string option) \<Rightarrow> status list \<Rightarrow> submission \<Rightarrow> store
     \<Rightarrow> string option \<times> submission \<times> store \<times> submission list" where
  "run_phases fails [] d st = (None, d, st, [])"
| "run_phases fails [p] d st =
     (case fails p of Some m \<Rightarrow> (Some m, d, st, []) | None \<Rightarrow> (None, d, st, []))"
| "run_phases fails (p # q # ps) d st =
     (case fails p of
        Some m \<Rightarrow> (Some m, d, st, [])
      | None \<Rightarrow>
          (let d' = d\<lparr>status := q\<rparr> in
           case run_phases fails (q # ps) d' (save d' st) of
             (e, d'', st'', ws) \<Rightarrow> (e, d'', st'', d' # ws)))"

definition gradeSubmission ::
  "(status \<Rightarrow> string option) \<Rightarrow> grading_result \<Rightarrow> submission \<Rightarrow> store
     \<Rightarrow> outcome \<times> submission \<times> store \<times> submission list" where
  "gradeSubmission fails res d st =
     (case run_phases fails [Uploading, Installing, Testing, Reviewing, Reporting] d st of
        (None, d', st', ws) \<Rightarrow> (Resolved res, d', st', ws)
      | (Some m, d', st', ws) \<Rightarrow> (Rejected m, d', st', ws))"

text \<open>
  One submission's life on the pipeline path: the intake turn, the run, and the turn of the
  continuations. The result is the sequence of versions of the document that reached the
  store.
\<close>

definition lifetime ::
  "(status \<Rightarrow> string option) \<Rightarrow> grading_result \<Rightarrow> db \<Rightarrow> db \<Rightarrow> submission \<Rightarrow> store
     \<Rightarrow> submission list" where
  "lifetime fails res dbs1 dbs2 d st =
     (case gradeSubmission fails res d (save d st) of
        (out, d', st', ws) \<Rightarrow>
          (case settle out dbs1 dbs2 d' st' of
             (d'', st'', unhandled) \<Rightarrow> d # ws @ (if unhandled then [] else [d''])))"

section \<open>The quality-analysis adapter\<close>

text \<open>
  A JavaScript string is a sequence of UTF-16 code units; \<open>js\<close> embeds a literal.
\<close>

type_synonym jsstring = "nat list"

definition js :: "string \<Rightarrow> jsstring" where
  "js s = map of_char s"

subsection \<open>JSON.parse\<close>

text \<open>
  \<^verbatim>\<open>JSON.parse\<close> is the language's; it is modelled by the JSON grammar: a lexer for
  the tokens and a stack automaton for the values. \<open>None\<close> is the SyntaxError it throws.
  A number is kept as the decimal \<open>m * 10 ^ e\<close> its literal denotes: \<^verbatim>\<open>analyzeCode\<close> reads
  of a number only its type and whether it is zero, and whether the double it rounds to
  is zero is decided from the decimal. The members of an object are kept in source order; a later member with
  the same key wins when a property is read.
\<close>

datatype json =
    JNull
  | JBool bool
  | JNumber int int
  | JString jsstring
  | JArray "json list"
  | JObject "(jsstring \<times> json) list"

datatype token =
    TLBrace | TRBrace | TLBracket | TRBracket | TColon | TComma
  | TString jsstring | TNumber int int | TTrue | TFalse | TNull

definition is_ws :: "nat \<Rightarrow> bool" where
  "is_ws c = (c = 9 \<or> c = 10 \<or> c = 13 \<or> c = 32)"

definition is_digit :: "nat \<Rightarrow> bool" where
  "is_digit c = (48 \<le> c \<and> c \<le> 57)"

definition hex_val :: "nat \<Rightarrow> nat option" where
  "hex_val c =
     (if 48 \<le> c \<and> c \<le> 57 then Some (c - 48)
      else if 65 \<le> c \<and> c \<le> 70 then Some (c - 55)
      else if 97 \<le> c \<and> c \<le> 102 then Some (c - 87)
      else None)"

definition unescape :: "nat \<Rightarrow> nat option" where
  "unescape e =
     (if e = 34 \<or> e = 92 \<or> e = 47 then Some e
      else if e = 98 then Some 8
      else if e = 102 then Some 12
      else if e = 110 then Some 10
      else if e = 114 then Some 13
      else if e = 116 then Some 9
      else None)"

fun lex_string :: "jsstring \<Rightarrow> (jsstring \<times> jsstring) option" where
  "lex_string [] = None"
| "lex_string (c # cs) =
     (if c = 34 then Some ([], cs)
      else if c = 92 then
        (case cs of
           [] \<Rightarrow> None
         | e # cs' \<Rightarrow>
             if e = 117 then
               (case cs' of
                  h1 # h2 # h3 # h4 # cs'' \<Rightarrow>
                    (case (hex_val h1, hex_val h2, hex_val h3, hex_val h4) of
                       (Some a, Some b, Some c, Some d) \<Rightarrow>
                         map_option (\<lambda>(s, r). ((a * 4096 + b * 256 + c * 16 + d) # s, r))
                           (lex_string cs'')
                     | _ \<Rightarrow> None)
                | _ \<Rightarrow> None)
             else
               (case unescape e of
                  None \<Rightarrow> None
                | Some x \<Rightarrow> map_option (\<lambda>(s, r). (x # s, r)) (lex_string cs')))
      else if c < 32 then None
      else map_option (\<lambda>(s, r). (c # s, r)) (lex_string cs))"

text \<open>
  A number is \<^verbatim>\<open>[-] int [frac] [exp]\<close>. The guards on the length of the rest in \<open>lex\<close>
  only make the recursion visibly terminating: a token always consumes input.
\<close>

definition digits_val :: "jsstring \<Rightarrow> nat" where
  "digits_val ds = foldl (\<lambda>a d. 10 * a + (d - 48)) 0 ds"

definition lex_int :: "jsstring \<Rightarrow> (jsstring \<times> jsstring) option" where
  "lex_int cs =
     (case cs of
        [] \<Rightarrow> None
      | c # r \<Rightarrow>
          if c = 48 then Some ([c], r)
          else if is_digit c then Some (takeWhile is_digit cs, dropWhile is_digit cs)
          else None)"

definition lex_frac :: "jsstring \<Rightarrow> (jsstring \<times> jsstring) option" where
  "lex_frac cs =
     (case cs of
        [] \<Rightarrow> Some ([], cs)
      | c # r \<Rightarrow>
          if c = 46 then
            (if takeWhile is_digit r = [] then None
             else Some (takeWhile is_digit r, dropWhile is_digit r))
          else Some ([], cs))"

definition lex_exp :: "jsstring \<Rightarrow> (int \<times> jsstring) option" where
  "lex_exp cs =
     (case cs of
        [] \<Rightarrow> Some (0, cs)
      | c # r \<Rightarrow>
          if c = 101 \<or> c = 69 then
            (let (neg, r') = (case r of
                                [] \<Rightarrow> (False, r)
                              | s # r2 \<Rightarrow> if s = 45 then (True, r2)
                                          else if s = 43 then (False, r2) else (False, r))
             in if takeWhile is_digit r' = [] then None
                else Some ((if neg then - int (digits_val (takeWhile is_digit r'))
                            else int (digits_val (takeWhile is_digit r'))),
                           dropWhile is_digit r'))
          else Some (0, cs))"

definition lex_number :: "jsstring \<Rightarrow> (int \<times> int \<times> jsstring) option" where
  "lex_number cs =
     (let (neg, cs1) = (case cs of [] \<Rightarrow> (False, cs)
                        | c # r \<Rightarrow> if c = 45 then (True, r) else (False, cs))
      in case lex_int cs1 of
           None \<Rightarrow> None
         | Some (ip, cs2) \<Rightarrow>
             (case lex_frac cs2 of
                None \<Rightarrow> None
              | Some (fp, cs3) \<Rightarrow>
                  (case lex_exp cs3 of
                     None \<Rightarrow> None
                   | Some (ex, cs4) \<Rightarrow>
                       Some ((if neg then - int (digits_val (ip @ fp)) else int (digits_val (ip @ fp))),
                             ex - int (length fp), cs4))))"

definition lex_literal :: "jsstring \<Rightarrow> (token \<times> jsstring) option" where
  "lex_literal cs =
     (if take 4 cs = js ''true'' then Some (TTrue, drop 4 cs)
      else if take 5 cs = js ''false'' then Some (TFalse, drop 5 cs)
      else if take 4 cs = js ''null'' then Some (TNull, drop 4 cs)
      else None)"

fun lex :: "jsstring \<Rightarrow> token list option" where
  "lex [] = Some []"
| "lex (c # cs) =
     (if is_ws c then lex cs
      else if c = 123 then map_option ((#) TLBrace) (lex cs)
      else if c = 125 then map_option ((#) TRBrace) (lex cs)
      else if c = 91 then map_option ((#) TLBracket) (lex cs)
      else if c = 93 then map_option ((#) TRBracket) (lex cs)
      else if c = 58 then map_option ((#) TColon) (lex cs)
      else if c = 44 then map_option ((#) TComma) (lex cs)
      else if c = 34 then
        (case lex_string cs of
           None \<Rightarrow> None
         | Some (s, r) \<Rightarrow>
             if length r \<le> length cs then map_option ((#) (TString s)) (lex r) else None)
      else if c = 45 \<or> is_digit c then
        (case lex_number (c # cs) of
           None \<Rightarrow> None
         | Some (m, e, r) \<Rightarrow>
             if length r \<le> length cs then map_option ((#) (TNumber m e)) (lex r) else None)
      else
        (case lex_literal (c # cs) of
           None \<Rightarrow> None
         | Some (t, r) \<Rightarrow>
             if length r \<le> length cs then map_option ((#) t) (lex r) else None))"

datatype frame = AFrame "json list" | OFrame "(jsstring \<times> json) list" "jsstring option"

datatype expect =
    ExpValue | ExpValueOrClose | ExpKeyOrClose | ExpKey | ExpColon | ExpCommaOrClose
  | ExpEnd json

fun deliver :: "json \<Rightarrow> frame list \<Rightarrow> (expect \<times> frame list) option" where
  "deliver v [] = Some (ExpEnd v, [])"
| "deliver v (AFrame es # fs) = Some (ExpCommaOrClose, AFrame (v # es) # fs)"
| "deliver v (OFrame ms (Some k) # fs) = Some (ExpCommaOrClose, OFrame ((k, v) # ms) None # fs)"
| "deliver v (OFrame ms None # fs) = None"

fun close_array :: "frame list \<Rightarrow> (expect \<times> frame list) option" where
  "close_array (AFrame es # fs) = deliver (JArray (rev es)) fs"
| "close_array _ = None"

fun close_object :: "frame list \<Rightarrow> (expect \<times> frame list) option" where
  "close_object (OFrame ms None # fs) = deliver (JObject (rev ms)) fs"
| "close_object _ = None"

fun set_key :: "jsstring \<Rightarrow> frame list \<Rightarrow> (expect \<times> frame list) option" where
  "set_key k (OFrame ms None # fs) = Some (ExpColon, OFrame ms (Some k) # fs)"
| "set_key k _ = None"

fun start_value :: "token \<Rightarrow> frame list \<Rightarrow> (expect \<times> frame list) option" where
  "start_value (TString s) fs = deliver (JString s) fs"
| "start_value (TNumber m e) fs = deliver (JNumber m e) fs"
| "start_value TTrue fs = deliver (JBool True) fs"
| "start_value TFalse fs = deliver (JBool False) fs"
| "start_value TNull fs = deliver JNull fs"
| "start_value TLBracket fs = Some (ExpValueOrClose, AFrame [] # fs)"
| "start_value TLBrace fs = Some (ExpKeyOrClose, OFrame [] None # fs)"
| "start_value _ fs = None"

fun step :: "expect \<Rightarrow> frame list \<Rightarrow> token \<Rightarrow> (expect \<times> frame list) option" where
  "step ExpValue fs t = start_value t fs"
| "step ExpValueOrClose fs t = (if t = TRBracket then close_array fs else start_value t fs)"
| "step ExpKeyOrClose fs t =
     (case t of TString k \<Rightarrow> set_key k fs | TRBrace \<Rightarrow> close_object fs | _ \<Rightarrow> None)"
| "step ExpKey fs t = (case t of TString k \<Rightarrow> set_key k fs | _ \<Rightarrow> None)"
| "step ExpColon fs t = (if t = TColon then Some (ExpValue, fs) else None)"
| "step ExpCommaOrClose fs t =
     (case fs of
        AFrame es # _ \<Rightarrow>
          (if t = TComma then Some (ExpValue, fs)
           else if t = TRBracket then close_array fs else None)
      | OFrame ms k # _ \<Rightarrow>
          (if t = TComma then Some (ExpKey, fs)
           else if t = TRBrace then close_object fs else None)
      | [] \<Rightarrow> None)"
| "step (ExpEnd v) fs t = None"

fun parse_tokens :: "expect \<Rightarrow> frame list \<Rightarrow> token list \<Rightarrow> json option" where
  "parse_tokens e fs [] = (case e of ExpEnd v \<Rightarrow> Some v | _ \<Rightarrow> None)"
| "parse_tokens e fs (t # ts) =
     (case step e fs t of None \<Rightarrow> None | Some (e', fs') \<Rightarrow> parse_tokens e' fs' ts)"

definition JSON_parse :: "jsstring \<Rightarrow> json option" where
  "JSON_parse text = (case lex text of None \<Rightarrow> None | Some ts \<Rightarrow> parse_tokens ExpValue [] ts)"

subsection \<open>safeJsonParse\<close>

text \<open>
  \<^verbatim>\<open>content.match(/\{[\s\S]*\}/)\<close>: the match starts at the first opening brace and, the
  star being greedy, ends at the last closing brace after it.
\<close>

definition match_braces :: "jsstring \<Rightarrow> jsstring option" where
  "match_braces content =
     (case dropWhile (\<lambda>c. c \<noteq> 123) content of
        [] \<Rightarrow> None
      | c # rest \<Rightarrow>
          (case dropWhile (\<lambda>c. c \<noteq> 125) (rev rest) of
             [] \<Rightarrow> None
           | xs \<Rightarrow> Some (c # rev xs)))"

definition safeJsonParse :: "jsstring \<Rightarrow> json" where
  "safeJsonParse content =
     (case JSON_parse content of
        Some v \<Rightarrow> v
      | None \<Rightarrow>
          (case match_braces content of
             None \<Rightarrow> JObject []
           | Some m \<Rightarrow> (case JSON_parse m of Some v \<Rightarrow> v | None \<Rightarrow> JObject [])))"

subsection \<open>analyzeCode\<close>

text \<open>
  Reading a property: of \<open>null\<close> it throws a TypeError, whose message names the property
  between single quotes (code unit 39); of an object it is the value of the last member
  with that key, or \<open>undefined\<close> (\<open>None\<close>); of a number, a string, a boolean or an array it
  is \<open>undefined\<close> for each of the keys \<^verbatim>\<open>analyzeCode\<close> reads.
\<close>

definition type_error :: "string \<Rightarrow> jsstring \<Rightarrow> jsstring" where
  "type_error of_what k =
     js ''Cannot read properties of '' @ js of_what @ js '' (reading '' @ [39] @ k @ [39] @ js '')''"

fun get_prop :: "json \<Rightarrow> jsstring \<Rightarrow> jsstring + json option" where
  "get_prop JNull k = Inl (type_error ''null'' k)"
| "get_prop (JObject ms) k = Inr (map_of (rev ms) k)"
| "get_prop _ k = Inr None"

fun is_number :: "json option \<Rightarrow> bool" where
  "is_number (Some (JNumber m e)) = True"
| "is_number _ = False"

text \<open>
  Truthiness. A number is falsy when the double \<^verbatim>\<open>JSON.parse\<close> rounds it to is zero: when
  the decimal is zero or its magnitude is at most \<open>2 ^ - 1075\<close>, half of the least positive
  double.
\<close>

definition rounds_to_zero :: "int \<Rightarrow> int \<Rightarrow> bool" where
  "rounds_to_zero m e =
     (if m = 0 then True
      else if 0 \<le> e then False
      else \<bar>m\<bar> * 2 ^ 1075 \<le> 10 ^ nat (- e))"

fun truthy_json :: "json option \<Rightarrow> bool" where
  "truthy_json None = False"
| "truthy_json (Some JNull) = False"
| "truthy_json (Some (JBool b)) = b"
| "truthy_json (Some (JNumber m e)) = (\<not> rounds_to_zero m e)"
| "truthy_json (Some (JString s)) = (s \<noteq> [])"
| "truthy_json (Some (JArray xs)) = True"
| "truthy_json (Some (JObject ms)) = True"

definition or_else :: "json option \<Rightarrow> json \<Rightarrow> json" where
  "or_else v d = (if truthy_json v then the v else d)"

record breakdown_entry =
  category :: string
  score :: json
  maxScore :: nat
  feedback :: string

datatype analysis =
    Analysis json json
  | CAnalysis json json json "breakdown_entry list"

definition breakdown_of :: "json \<Rightarrow> json \<Rightarrow> breakdown_entry list" where
  "breakdown_of codeQualityScore codeSmellScore =
     [\<lparr>category = ''Code Quality'', score = codeQualityScore, maxScore = 100,
       feedback = ''LLM code quality score''\<rparr>,
      \<lparr>category = ''Code Smell'', score = codeSmellScore, maxScore = 100,
       feedback = ''LLM code smell score''\<rparr>]"

text \<open>
  The call to \<^verbatim>\<open>create\<close> either throws or returns the \<^verbatim>\<open>content\<close> of each choice, which
  the library types as a string or \<open>null\<close> (\<open>None\<close>). \<open>try_body\<close> is the body of the
  \<^verbatim>\<open>try\<close> after the call: \<open>Inl\<close> is the message of what it throws. With no choice at all,
  reading \<^verbatim>\<open>message\<close> of \<open>undefined\<close> throws; with \<open>null\<close> content, \<^verbatim>\<open>JSON.parse(null)\<close>
  is \<open>null\<close>, and reading a property of it throws.
\<close>

datatype api_outcome = Throws jsstring | Returns "jsstring option list"

definition c_scores :: "json option \<Rightarrow> json option \<Rightarrow> json \<times> json" where
  "c_scores codeSmellScore codeQualityScore =
     (if \<not> is_number codeSmellScore \<or> \<not> is_number codeQualityScore
      then (JNumber 0 0, JNumber 0 0)
      else (the codeSmellScore, the codeQualityScore))"

definition read_analysis :: "string option \<Rightarrow> json \<Rightarrow> jsstring + analysis" where
  "read_analysis ptype analysis =
     (if ptype = Some ''c'' then
        (case get_prop analysis (js ''codeSmellScore'') of
           Inl e \<Rightarrow> Inl e
         | Inr codeSmellScore \<Rightarrow>
             (case get_prop analysis (js ''codeQualityScore'') of
                Inl e \<Rightarrow> Inl e
              | Inr codeQualityScore \<Rightarrow>
                  (case c_scores codeSmellScore codeQualityScore of
                     (smell, quality) \<Rightarrow>
                       (case get_prop analysis (js ''report'') of
                          Inl e \<Rightarrow> Inl e
                        | Inr rep \<Rightarrow>
                            Inr (CAnalysis smell quality
                                   (or_else rep (JString (js ''No analysis provided'')))
                                   (breakdown_of quality smell))))))
      else
        (case get_prop analysis (js ''score'') of
           Inl e \<Rightarrow> Inl e
         | Inr sc \<Rightarrow>
             (case get_prop analysis (js ''report'') of
                Inl e \<Rightarrow> Inl e
              | Inr rep \<Rightarrow>
                  Inr (Analysis (or_else sc (JNumber 0 0))
                         (or_else rep (JString (js ''No analysis provided'')))))))"

definition try_body :: "string option \<Rightarrow> api_outcome \<Rightarrow> jsstring + analysis" where
  "try_body ptype out =
     (case out of
        Throws msg \<Rightarrow> Inl msg
      | Returns choices \<Rightarrow>
          (case choices of
             [] \<Rightarrow> Inl (type_error ''undefined'' (js ''message''))
           | content # _ \<Rightarrow>
               read_analysis ptype
                 (case content of None \<Rightarrow> JNull | Some c \<Rightarrow> safeJsonParse c)))"

definition degraded :: "string option \<Rightarrow> jsstring \<Rightarrow> analysis" where
  "degraded ptype msg =
     (if ptype = Some ''c'' then
        CAnalysis (JNumber 0 0) (JNumber 0 0) (JString (js ''AI analysis failed: '' @ msg))
          (breakdown_of (JNumber 0 0) (JNumber 0 0))
      else Analysis (JNumber 0 0) (JString (js ''AI analysis failed: '' @ msg)))"

text \<open>
  \<open>create n prompt\<close> is the outcome of the \<open>n\<close>-th call to
  \<^verbatim>\<open>openai.chat.completions.create\<close>; the counter of calls is threaded through. The prompt
  template is a parameter.
\<close>

definition analyzeCode ::
  "(jsstring \<Rightarrow> jsstring) \<Rightarrow> (nat \<Rightarrow> jsstring \<Rightarrow> api_outcome) \<Rightarrow> nat \<Rightarrow> jsstring
     \<Rightarrow> string option \<Rightarrow> analysis \<times> nat" where
  "analyzeCode buildPrompt create calls files ptype =
     (let prompt = buildPrompt files;
          out = create calls prompt;
          calls' = Suc calls
      in case try_body ptype out of
           Inr a \<Rightarrow> (a, calls')
         | Inl msg \<Rightarrow> (degraded ptype msg, calls'))"

text \<open>
  The client. \<^verbatim>\<open>new OpenAI({ apiKey })\<close> sets no \<^verbatim>\<open>maxRetries\<close>, so the library's default
  of two applies. One call to \<^verbatim>\<open>create\<close> sends a request; a request that gets no response
  (a connection error or a timeout) or a response the library classifies as retryable is
  sent again while retries remain; otherwise the call returns the reply or throws the
  error. A response is retryable when its \<^verbatim>\<open>x-should-retry\<close> header says so or, without
  that header, when its status is 408, 409, 429 or at least 500. \<open>service n i prompt\<close> is
  what the service does with the \<open>i\<close>-th request of the \<open>n\<close>-th call; \<open>makeRequest\<close>
  returns the outcome of the call and the number of requests sent so far.
\<close>

datatype http_outcome =
    ConnectionError jsstring
  | StatusError nat "bool option" jsstring
  | Reply "jsstring option list"

definition DEFAULT_MAX_RETRIES :: nat where
  "DEFAULT_MAX_RETRIES = 2"

fun shouldRetry :: "http_outcome \<Rightarrow> bool" where
  "shouldRetry (ConnectionError msg) = True"
| "shouldRetry (StatusError code (Some h) msg) = h"
| "shouldRetry (StatusError code None msg) = (code = 408 \<or> code = 409 \<or> code = 429 \<or> 500 \<le> code)"
| "shouldRetry (Reply choices) = False"

fun response_of :: "http_outcome \<Rightarrow> api_outcome" where
  "response_of (ConnectionError msg) = Throws msg"
| "response_of (StatusError code h msg) = Throws msg"
| "response_of (Reply choices) = Returns choices"

fun makeRequest ::
  "nat \<Rightarrow> (nat \<Rightarrow> jsstring \<Rightarrow> http_outcome) \<Rightarrow> nat \<Rightarrow> jsstring \<Rightarrow> api_outcome \<times> nat" where
  "makeRequest 0 sv i prompt = (response_of (sv i prompt), Suc i)"
| "makeRequest (Suc retriesRemaining) sv i prompt =
     (if shouldRetry (sv i prompt) then makeRequest retriesRemaining sv (Suc i) prompt
      else (response_of (sv i prompt), Suc i))"

definition openai_create ::
  "nat \<Rightarrow> (nat \<Rightarrow> nat \<Rightarrow> jsstring \<Rightarrow> http_outcome) \<Rightarrow> nat \<Rightarrow> jsstring \<Rightarrow> api_outcome" where
  "openai_create maxRetries service n prompt = fst (makeRequest maxRetries (service n) 0 prompt)"

definition requests_sent ::
  "nat \<Rightarrow> (nat \<Rightarrow> nat \<Rightarrow> jsstring \<Rightarrow> http_outcome) \<Rightarrow> nat \<Rightarrow> jsstring \<Rightarrow> nat" where
  "requests_sent maxRetries service n prompt = snd (makeRequest maxRetries (service n) 0 prompt)"

fun scores_of :: "analysis \<Rightarrow> json list" where
  "scores_of (Analysis sc rep) = [sc]"
| "scores_of (CAnalysis smell quality rep bd) = [smell, quality] @ map score bd"

fun report_of :: "analysis \<Rightarrow> json" where
  "report_of (Analysis sc rep) = rep"
| "report_of (CAnalysis smell quality rep bd) = rep"

subsection \<open>sanitizeCode and readRepoFiles\<close>

text \<open>
  \<^verbatim>\<open>code.replace(/[\x00-\x09\x0B-\x1F\x7F]/g, '')\<close> deletes every code unit of the class.
\<close>

definition sanitizeCode :: "jsstring \<Rightarrow> jsstring" where
  "sanitizeCode code = filter (\<lambda>c. \<not> (c \<le> 9 \<or> (11 \<le> c \<and> c \<le> 31) \<or> c = 127)) code"

definition truncation_marker :: jsstring where
  "truncation_marker = 10 # js ''// ...truncated...''"

definition file_content :: "jsstring \<Rightarrow> jsstring" where
  "file_content raw =
     (let content = sanitizeCode raw in
      if length content > 10000 then take 10000 content @ truncation_marker else content)"

text \<open>
  \<open>glob\<close> and \<open>readFile\<close> are the file system: the paths a pattern matches (taken relative
  to the repository), and the decoded text of a file, or nothing when reading it throws,
  in which case the file is skipped. The matched paths go into a \<^verbatim>\<open>Set\<close>, which keeps
  the first insertion of each.
\<close>

definition file_entry :: "(jsstring \<Rightarrow> jsstring option) \<Rightarrow> jsstring \<Rightarrow> jsstring" where
  "file_entry readFile file =
     (case readFile file of
        None \<Rightarrow> []
      | Some raw \<Rightarrow> js ''// '' @ file @ [10] @ file_content raw @ [10, 10])"

definition set_add :: "jsstring list \<Rightarrow> jsstring \<Rightarrow> jsstring list" where
  "set_add fs f = (if f \<in> set fs then fs else fs @ [f])"

definition readRepoFiles ::
  "(string \<Rightarrow> jsstring list) \<Rightarrow> (jsstring \<Rightarrow> jsstring option) \<Rightarrow> string list \<Rightarrow> jsstring" where
  "readRepoFiles glob readFile fileGlobs =
     concat (map (file_entry readFile) (foldl set_add [] (concat (map glob fileGlobs))))"

definition DEFAULT_FILE_GLOBS :: "string list" where
  "DEFAULT_FILE_GLOBS =
     [''README.md'', ''readme.md'', ''package.json'',
      ''index.js'', ''index.ts'', ''app.js'', ''app.ts'', ''server.js'', ''server.ts'',
      ''src/**/*.js'', ''src/**/*.ts'',
      ''routes/**/*.js'', ''routes/**/*.ts'',
      ''controllers/**/*.js'', ''controllers/**/*.ts'',
      ''middleware/**/*.js'', ''middleware/**/*.ts'']"

section \<open>The admission scheduler\<close>

text \<open>
  Modelled from the spec: the admission gate lives in \<^verbatim>\<open>services/gradingService\<close>, which is
  not among the sources; the route handler only calls \<^verbatim>\<open>gradeSubmission\<close>. Sections 4.1
  and 5 of the specification give its contract: a budget \<open>N\<close>; a request that arrives while
  fewer than \<open>N\<close> jobs are in flight starts at once, otherwise it joins the back of a queue;
  when a job in flight finishes, its slot goes to the job at the front of the queue; no
  request is rejected. Tasks are scheduled cooperatively in one process, so a run is a
  sequence of arrivals and completions. \<open>started\<close> logs the jobs in the order they were
  started.
\<close>

record sched =
  limit :: nat
  running :: "nat list"
  queue :: "nat list"
  started :: "nat list"

definition sched_init :: "nat \<Rightarrow> sched" where
  "sched_init n = \<lparr>limit = n, running = [], queue = [], started = []\<rparr>"

definition admit :: "nat \<Rightarrow> sched \<Rightarrow> sched" where
  "admit j s =
     (if length (running s) < limit s
      then s\<lparr>running := running s @ [j], started := started s @ [j]\<rparr>
      else s\<lparr>queue := queue s @ [j]\<rparr>)"

definition release :: "nat \<Rightarrow> sched \<Rightarrow> sched" where
  "release j s =
     (if j \<in> set (running s) then
        (case queue s of
           [] \<Rightarrow> s\<lparr>running := remove1 j (running s)\<rparr>
         | q # qs \<Rightarrow>
             s\<lparr>running := remove1 j (running s) @ [q], queue := qs, started := started s @ [q]\<rparr>)
      else s)"

datatype sched_event = Arrive nat | Finish nat

fun sched_step :: "sched \<Rightarrow> sched_event \<Rightarrow> sched" where
  "sched_step s (Arrive j) = admit j s"
| "sched_step s (Finish j) = release j s"

definition sched_run :: "nat \<Rightarrow> sched_event list \<Rightarrow> sched" where
  "sched_run n evs = foldl sched_step (sched_init n) evs"

fun arrivals :: "sched_event list \<Rightarrow> nat list" where
  "arrivals [] = []"
| "arrivals (Arrive j # evs) = j # arrivals evs"
| "arrivals (Finish j # evs) = arrivals evs"

section \<open>The properties of the specification\<close>

text \<open>
  Section 8: the status of a submission moves along the forward chain or, from a state that
  is not \<open>completed\<close>, to \<open>failed\<close>; re-entering \<open>failed\<close> is idempotent.
\<close>

fun forward_edge :: "status \<Rightarrow> status \<Rightarrow> bool" where
  "forward_edge Uploading b = (b = Installing)"
| "forward_edge Installing b = (b = Testing)"
| "forward_edge Testing b = (b = Reviewing)"
| "forward_edge Reviewing b = (b = Reporting)"
| "forward_edge Reporting b = (b = Completed)"
| "forward_edge Completed b = False"
| "forward_edge Failed b = False"

definition valid_edge :: "status \<Rightarrow> status \<Rightarrow> bool" where
  "valid_edge a b = (forward_edge a b \<or> (b = Failed \<and> a \<noteq> Completed))"

fun chain_ok :: "status list \<Rightarrow> bool" where
  "chain_ok [] = True"
| "chain_ok [a] = True"
| "chain_ok (a # b # xs) = (valid_edge a b \<and> chain_ok (b # xs))"

text \<open>
  Section 8: \<open>grade\<close> is \<open>pending\<close> while the status is not \<open>completed\<close>, and \<open>pass\<close> or
  \<open>fail\<close> once it is.
\<close>

definition grade_inv :: "submission \<Rightarrow> bool" where
  "grade_inv s = (if status s = Completed then grade s \<noteq> Pending else grade s = Pending)"

text \<open>
  The control characters of the claim on prompt files: the code units of Unicode's general
  category Cc.
\<close>

definition is_control :: "nat \<Rightarrow> bool" where
  "is_control c = (c < 32 \<or> (127 \<le> c \<and> c \<le> 159))"

text \<open>
  Section 8: at most \<open>N\<close> jobs are in flight, a job waits only while all \<open>N\<close> slots are
  taken, and the jobs started so far followed by the queue are the arrivals in their order.
\<close>

definition sched_inv :: "nat \<Rightarrow> sched_event list \<Rightarrow> sched \<Rightarrow> bool" where
  "sched_inv n evs s =
     (limit s = n \<and> length (running s) \<le> n
      \<and> (queue s \<noteq> [] \<longrightarrow> length (running s) = n)
      \<and> started s @ queue s = arrivals evs)"

subsection \<open>Sample data\<close>

definition ex_sub :: submission where
  "ex_sub =
     \<lparr>sid = 7, githubUrl = ''https://github.com/a/b'', projectType = ''express'',
      userId = ''u1'', status = Uploading, grade = Pending, scores = None, report = None,
      error = None, createdAt = 3\<rparr>"

definition ex_done :: submission where
  "ex_done =
     ex_sub\<lparr>status := Completed, grade := Pass,
            scores := Some \<lparr>total_score = 90, testScore = 100, qualityScore = 80\<rparr>,
            report := Some ''# Report''\<rparr>"

definition ex_admin :: user where
  "ex_admin = \<lparr>uid = ''u9'', email = ''root@example.org'', role = ''admin''\<rparr>"

definition ex_student :: user where
  "ex_student = \<lparr>uid = ''u1'', email = ''s@example.org'', role = ''student''\<rparr>"

definition ex_users :: users where
  "ex_users = [''u9'' \<mapsto> ex_admin, ''u1'' \<mapsto> ex_student]"

definition ex_jwt :: "string \<Rightarrow> string option" where
  "ex_jwt t = (if t = ''admin-token'' then Some ''u9''
               else if t = ''student-token'' then Some ''u1'' else None)"

definition ex_body :: grade_body where
  "ex_body = \<lparr>b_githubUrl = ''https://github.com/a/c'', b_projectType = ''react'',
              b_fileGlobs = None\<rparr>"

definition ex_result :: grading_result where
  "ex_result = \<lparr>r_grade = Pass, r_scores = \<lparr>total_score = 90, testScore = 100, qualityScore = 80\<rparr>,
                r_report = Some ''# Report''\<rparr>"

section \<open>Verification: the submission routes\<close>

lemmas ex_defs = ex_sub_def ex_done_def ex_admin_def ex_student_def ex_users_def ex_jwt_def
  ex_body_def ex_result_def

lemma findById_save: "findById (save d st) (sid d) = Some d"
proof (cases "findById st (sid d)")
  case None
  then show ?thesis
    by (induction st) (auto simp: save_def findById_def split: if_splits)
next
  case (Some a)
  then have "findById (map (\<lambda>s. if sid s = sid d then d else s) st) (sid d) = Some d"
    by (induction st) (auto simp: findById_def split: if_splits)
  with Some show ?thesis by (simp add: save_def)
qed

lemma getUserFromToken_valid:
  "getUserFromToken jwt_verify us dbu auth = Inr u \<Longrightarrow>
     \<exists>tok pid. auth = Some (''Bearer '' @ tok) \<and> jwt_verify tok = Some pid \<and> us pid = Some u"
  by (auto simp: getUserFromToken_def prefix_def split: option.splits if_splits db.splits)

lemma lifetime_statuses:
  assumes "status d = Uploading"
  shows "chain_ok (map status (lifetime fails res dbs1 dbs2 d st))"
  using assms
  by (simp add: lifetime_def gradeSubmission_def settle_def catch_handler_def on_fulfilled_def
      on_rejected_def valid_edge_def Let_def split: option.splits db.splits)

lemma lifetime_grades:
  assumes "status d = Uploading" "grade d = Pending" "r_grade res \<noteq> Pending" "dbs1 = DbOk"
  shows "\<forall>s \<in> set (lifetime fails res dbs1 dbs2 d st). grade_inv s"
  using assms
  by (auto simp: lifetime_def gradeSubmission_def settle_def catch_handler_def on_fulfilled_def
      on_rejected_def grade_inv_def Let_def split: option.splits db.splits)

text \<open>
  Claim C2, as amended. On the pipeline path (creation at intake, the commits of the phases,
  and the success and failure continuations) the versions of a submission that reach the store
  start at \<open>uploading\<close> and follow only forward edges or an edge to \<open>failed\<close>. The admin
  update makes no transition check: it writes whatever status of the enumeration the body
  carries, from any current status.
\<close>

theorem C2_pipeline_path_follows_chain:
  "chain_ok (map status (lifetime fails res dbs1 dbs2 (new_submission i now b u) st))
   \<and> map status (take 1 (lifetime fails res dbs1 dbs2 (new_submission i now b u) st)) = [Uploading]
   \<and> apply_patch \<lparr>p_status = Some (string_of_status x), p_grade = None, p_error = None\<rparr> s
       = Some (s\<lparr>status := x\<rparr>)"
proof -
  have 1: "chain_ok (map status (lifetime fails res dbs1 dbs2 (new_submission i now b u) st))"
    by (rule lifetime_statuses) (simp add: new_submission_def)
  have 2: "map status (take 1 (lifetime fails res dbs1 dbs2 (new_submission i now b u) st)) = [Uploading]"
    by (simp add: lifetime_def new_submission_def split: prod.splits)
  have 3: "apply_patch \<lparr>p_status = Some (string_of_status x), p_grade = None, p_error = None\<rparr> s
       = Some (s\<lparr>status := x\<rparr>)"
    by (cases x) (simp_all add: apply_patch_def truthy_def status_of_string_def)
  from 1 2 3 show ?thesis by blast
qed

theorem C2_witness:
  "chain_ok (map status (lifetime (\<lambda>p. if p = Testing then Some ''runner crashed'' else None)
       ex_result DbOk DbOk (new_submission 8 5 ex_body ''u1'') [ex_sub]))
   \<and> map status (lifetime (\<lambda>p. if p = Testing then Some ''runner crashed'' else None)
       ex_result DbOk DbOk (new_submission 8 5 ex_body ''u1'') [ex_sub])
     = [Uploading, Installing, Testing, Failed]
   \<and> map status (lifetime (\<lambda>_. None) ex_result DbOk DbOk (new_submission 8 5 ex_body ''u1'') [ex_sub])
     = [Uploading, Installing, Testing, Reviewing, Reporting, Completed]"
proof -
  have a: "map status (lifetime (\<lambda>p. if p = Testing then Some ''runner crashed'' else None)
       ex_result DbOk DbOk (new_submission 8 5 ex_body ''u1'') [ex_sub])
     = [Uploading, Installing, Testing, Failed]"
    by (simp add: lifetime_def gradeSubmission_def settle_def on_rejected_def catch_handler_def
        new_submission_def Let_def)
  have b: "map status (lifetime (\<lambda>_. None) ex_result DbOk DbOk (new_submission 8 5 ex_body ''u1'') [ex_sub])
     = [Uploading, Installing, Testing, Reviewing, Reporting, Completed]"
    by (simp add: lifetime_def gradeSubmission_def settle_def on_fulfilled_def new_submission_def
        Let_def)
  from C2_pipeline_path_follows_chain[of "\<lambda>p. if p = Testing then Some ''runner crashed'' else None"
      ex_result DbOk DbOk 8 5 ex_body "''u1''" "[ex_sub]"] a b
  show ?thesis by blast
qed

text \<open>
  Claim C2 as stated fails at the admin update: an administrator's PATCH with status
  \<open>uploading\<close> moves a completed submission back to the first state.
\<close>

theorem C2_counterexample:
  "route_patch ex_jwt ex_users DbOk DbOk DbOk
      \<lparr>authorization = Some ''Bearer admin-token'', params_id = 7,
       body = \<lparr>p_status = Some ''uploading'', p_grade = None, p_error = None\<rparr>\<rparr> [ex_done]
     = (SubmissionJson (ex_done\<lparr>status := Uploading\<rparr>), [ex_done\<lparr>status := Uploading\<rparr>])
   \<and> status ex_done = Completed
   \<and> \<not> valid_edge Completed Uploading
   \<and> \<not> chain_ok [Reporting, Completed, Uploading]"
  by (simp add: route_patch_def getUserFromToken_def ex_jwt_def ex_users_def requireAdmin_def
      ex_admin_def patch_handler_def findById_def ex_done_def ex_sub_def apply_patch_def truthy_def
      status_of_string_def save_def valid_edge_def)

text \<open>
  Claim C3, as amended. Intake creates a submission that satisfies the grade invariant; when
  the pipeline's result carries \<open>pass\<close> or \<open>fail\<close> and the success continuation's save
  succeeds, every version of the submission that reaches the store on the pipeline path
  satisfies it; the success continuation establishes it, and the failure continuation keeps
  it on a document whose grade is still \<open>pending\<close>. The admin update writes status and grade
  independently of each other, with no check relating them.
\<close>

theorem C3_pipeline_path_keeps_grade_invariant:
  assumes "r_grade res \<noteq> Pending"
  shows "grade_inv (new_submission i now b u)
   \<and> (\<forall>s \<in> set (lifetime fails res DbOk dbs2 (new_submission i now b u) st). grade_inv s)
   \<and> grade_inv (on_fulfilled res d)
   \<and> (grade d = Pending \<longrightarrow> grade_inv (on_rejected msg d))
   \<and> apply_patch \<lparr>p_status = Some (string_of_status x), p_grade = Some g, p_error = None\<rparr> s
       = (if g = [] then Some (s\<lparr>status := x\<rparr>)
          else map_option (\<lambda>g'. s\<lparr>status := x, grade := g'\<rparr>) (grade_of_string g))"
proof -
  have 1: "grade_inv (new_submission i now b u)"
    by (simp add: grade_inv_def new_submission_def)
  have 2: "\<forall>s \<in> set (lifetime fails res DbOk dbs2 (new_submission i now b u) st). grade_inv s"
    by (rule lifetime_grades) (simp_all add: new_submission_def assms)
  have 3: "grade_inv (on_fulfilled res d)"
    using assms by (simp add: grade_inv_def on_fulfilled_def)
  have 4: "grade d = Pending \<longrightarrow> grade_inv (on_rejected msg d)"
    by (simp add: grade_inv_def on_rejected_def)
  have 5: "apply_patch \<lparr>p_status = Some (string_of_status x), p_grade = Some g, p_error = None\<rparr> s
       = (if g = [] then Some (s\<lparr>status := x\<rparr>)
          else map_option (\<lambda>g'. s\<lparr>status := x, grade := g'\<rparr>) (grade_of_string g))"
    by (cases x) (simp_all add: apply_patch_def truthy_def status_of_string_def split: option.splits)
  from 1 2 3 4 5 show ?thesis by blast
qed

theorem C3_witness:
  "r_grade ex_result \<noteq> Pending
   \<and> list_all grade_inv
        (lifetime (\<lambda>_. None) ex_result DbOk DbOk (new_submission 8 5 ex_body ''u1'') [ex_sub])
   \<and> map (\<lambda>s. (status s, grade s))
        (lifetime (\<lambda>_. None) ex_result DbOk DbOk (new_submission 8 5 ex_body ''u1'') [ex_sub])
      = [(Uploading, Pending), (Installing, Pending), (Testing, Pending), (Reviewing, Pending),
         (Reporting, Pending), (Completed, Pass)]"
proof -
  have h: "r_grade ex_result \<noteq> Pending" by (simp add: ex_result_def)
  have l: "map (\<lambda>s. (status s, grade s))
        (lifetime (\<lambda>_. None) ex_result DbOk DbOk (new_submission 8 5 ex_body ''u1'') [ex_sub])
      = [(Uploading, Pending), (Installing, Pending), (Testing, Pending), (Reviewing, Pending),
         (Reporting, Pending), (Completed, Pass)]"
    by (simp add: lifetime_def gradeSubmission_def settle_def on_fulfilled_def new_submission_def
        Let_def ex_result_def)
  from C3_pipeline_path_keeps_grade_invariant[OF h, of 8 5 ex_body "''u1''" "\<lambda>_. None" DbOk "[ex_sub]"]
    h l show ?thesis by (simp add: list_all_iff)
qed

text \<open>
  Claim C3 as stated fails at the admin update: a PATCH carrying only grade \<open>pass\<close> leaves a
  submission that is still \<open>uploading\<close> with a final grade.
\<close>

theorem C3_counterexample:
  "route_patch ex_jwt ex_users DbOk DbOk DbOk
      \<lparr>authorization = Some ''Bearer admin-token'', params_id = 7,
       body = \<lparr>p_status = None, p_grade = Some ''pass'', p_error = None\<rparr>\<rparr> [ex_sub]
     = (SubmissionJson (ex_sub\<lparr>grade := Pass\<rparr>), [ex_sub\<lparr>grade := Pass\<rparr>])
   \<and> grade_inv ex_sub
   \<and> status (ex_sub\<lparr>grade := Pass\<rparr>) = Uploading
   \<and> \<not> grade_inv (ex_sub\<lparr>grade := Pass\<rparr>)"
  by (simp add: route_patch_def getUserFromToken_def ex_jwt_def ex_users_def requireAdmin_def
      ex_admin_def patch_handler_def findById_def ex_sub_def apply_patch_def truthy_def
      grade_of_string_def save_def grade_inv_def)

text \<open>
  Claim C5. For an accepted request (the token names a user, and the save of the new document
  succeeds) the intake turn stores a new submission with status \<open>uploading\<close> and grade
  \<open>pending\<close> under an id not used before, answers 202 with that id, and leaves the promise
  chain of the pipeline pending: the answer is fixed in the turn of the handler, whatever the
  pipeline's later outcome.
\<close>

theorem C5_intake_acknowledges_at_once:
  assumes "getUserFromToken jwt_verify us dbu (authorization req) = Inr u" and "uid u \<noteq> []"
  shows "\<exists>d. route_post_grade jwt_verify us dbu DbOk now req st
               = (Accepted (sid d), save d st, Some d)
           \<and> findById (save d st) (sid d) = Some d
           \<and> findById st (sid d) = None
           \<and> status d = Uploading \<and> grade d = Pending \<and> userId d = uid u
           \<and> githubUrl d = b_githubUrl (body req)"
proof -
  let ?d = "new_submission (fresh_id st) now (body req) (uid u)"
  have fresh: "findById st (fresh_id st) = None"
  proof -
    have "sid s \<le> foldr max (map sid st) 0" if "s \<in> set st" for s
      using that by (induction st) auto
    then have "\<forall>s \<in> set st. sid s \<noteq> fresh_id st"
      by (fastforce simp: fresh_id_def)
    then show ?thesis
      by (simp add: findById_def find_None_iff)
  qed
  have "route_post_grade jwt_verify us dbu DbOk now req st = (Accepted (sid ?d), save ?d st, Some ?d)"
    using assms by (simp add: route_post_grade_def grade_handler_def Let_def)
  moreover have "findById (save ?d st) (sid ?d) = Some ?d"
    by (rule findById_save)
  moreover have "findById st (sid ?d) = None"
    using fresh by (simp add: new_submission_def)
  moreover have "status ?d = Uploading \<and> grade ?d = Pending \<and> userId ?d = uid u
           \<and> githubUrl ?d = b_githubUrl (body req)"
    by (simp add: new_submission_def)
  ultimately show ?thesis by blast
qed

theorem C5_witness:
  "getUserFromToken ex_jwt ex_users DbOk (Some ''Bearer student-token'') = Inr ex_student
   \<and> uid ex_student \<noteq> []
   \<and> route_post_grade ex_jwt ex_users DbOk DbOk 5
      \<lparr>authorization = Some ''Bearer student-token'', params_id = 0, body = ex_body\<rparr> [ex_sub]
     = (Accepted 8, [ex_sub, new_submission 8 5 ex_body ''u1''], Some (new_submission 8 5 ex_body ''u1''))"
proof -
  have h1: "getUserFromToken ex_jwt ex_users DbOk
      (authorization \<lparr>authorization = Some ''Bearer student-token'', params_id = 0, body = ex_body\<rparr>) = Inr ex_student"
    by (simp add: getUserFromToken_def ex_defs)
  have h2: "uid ex_student \<noteq> []" by (simp add: ex_defs)
  from C5_intake_acknowledges_at_once[OF h1 h2, of 5 "[ex_sub]"] h1 h2
  show ?thesis
    by (auto simp: route_post_grade_def grade_handler_def fresh_id_def
        save_def findById_def new_submission_def Let_def ex_sub_def ex_student_def)
qed

text \<open>
  Claim C6. When intake has started a pipeline run, the caller's answer is the 202 already
  sent. If the run rejects with a message, the failure continuation sets the document's
  status to \<open>failed\<close> and its error to the message, whatever state the run left the document
  in; when its save succeeds the store holds that version and the chain ends handled.
\<close>

theorem C6_error_boundary_records_failure:
  assumes "route_post_grade jwt_verify us dbu dbs now req st = (r, st1, Some d)"
  shows "r = Accepted (sid d)
   \<and> fst (settle (Rejected msg) dbs1 dbs2 d' st') = d'\<lparr>status := Failed, error := Some msg\<rparr>
   \<and> settle (Rejected msg) dbs1 DbOk d' st'
       = (d'\<lparr>status := Failed, error := Some msg\<rparr>,
          save (d'\<lparr>status := Failed, error := Some msg\<rparr>) st', False)
   \<and> findById (save (d'\<lparr>status := Failed, error := Some msg\<rparr>) st') (sid d')
       = Some (d'\<lparr>status := Failed, error := Some msg\<rparr>)"
proof -
  have 1: "r = Accepted (sid d)"
    using assms
    by (auto simp: route_post_grade_def grade_handler_def Let_def
        split: sum.splits if_splits db.splits)
  have 2: "fst (settle (Rejected msg) dbs1 dbs2 d' st') = d'\<lparr>status := Failed, error := Some msg\<rparr>"
    by (simp add: settle_def catch_handler_def on_rejected_def Let_def split: db.splits)
  have 3: "settle (Rejected msg) dbs1 DbOk d' st'
       = (d'\<lparr>status := Failed, error := Some msg\<rparr>,
          save (d'\<lparr>status := Failed, error := Some msg\<rparr>) st', False)"
    by (simp add: settle_def catch_handler_def on_rejected_def Let_def)
  have 4: "findById (save (d'\<lparr>status := Failed, error := Some msg\<rparr>) st') (sid d')
       = Some (d'\<lparr>status := Failed, error := Some msg\<rparr>)"
    using findById_save[of "d'\<lparr>status := Failed, error := Some msg\<rparr>" st'] by simp
  from 1 2 3 4 show ?thesis by blast
qed

theorem C6_witness:
  "route_post_grade ex_jwt ex_users DbOk DbOk 5
      \<lparr>authorization = Some ''Bearer student-token'', params_id = 0, body = ex_body\<rparr> [ex_sub]
     = (Accepted 8, [ex_sub, new_submission 8 5 ex_body ''u1''], Some (new_submission 8 5 ex_body ''u1''))
   \<and> settle (Rejected ''clone failed'') DbOk DbOk (new_submission 8 5 ex_body ''u1'')
        [ex_sub, new_submission 8 5 ex_body ''u1'']
     = (new_submission 8 5 ex_body ''u1''\<lparr>status := Failed, error := Some ''clone failed''\<rparr>,
        [ex_sub, new_submission 8 5 ex_body ''u1''\<lparr>status := Failed, error := Some ''clone failed''\<rparr>],
        False)"
proof -
  have h: "route_post_grade ex_jwt ex_users DbOk DbOk 5
      \<lparr>authorization = Some ''Bearer student-token'', params_id = 0, body = ex_body\<rparr> [ex_sub]
     = (Accepted 8, [ex_sub, new_submission 8 5 ex_body ''u1''], Some (new_submission 8 5 ex_body ''u1''))"
    by (simp add: route_post_grade_def getUserFromToken_def grade_handler_def ex_defs fresh_id_def
        save_def findById_def new_submission_def Let_def)
  from C6_error_boundary_records_failure[OF h, of "''clone failed''" DbOk DbOk
      "new_submission 8 5 ex_body ''u1''" "[ex_sub, new_submission 8 5 ex_body ''u1'']"] h
  show ?thesis
    by (simp add: save_def findById_def new_submission_def ex_sub_def)
qed

text \<open>
  Claim C10. The three read routes never look at the Authorization header: with any header or
  none they return the submission, its report, or the list, whoever owns them, and a
  not-found answer otherwise. The grade, update and delete routes answer 401 and leave the
  store untouched unless the header is a bearer token that verifies and names a user.
\<close>

theorem C10_reads_take_no_token:
  fixes rq :: "'b request" and rl :: "list_query request"
    and rg :: "grade_body request" and rp :: "patch_body request"
  shows
  "route_get_by_id DbOk (rq\<lparr>authorization := a\<rparr>) st =
     (case findById st (params_id rq) of
        None \<Rightarrow> ErrorJson 404 ''Submission not found'' | Some s \<Rightarrow> SubmissionJson s)
   \<and> route_get_report DbOk (rq\<lparr>authorization := a\<rparr>) st =
     (case findById st (params_id rq) of
        None \<Rightarrow> SendText 404 ''Report not found''
      | Some s \<Rightarrow> (case report s of
                    None \<Rightarrow> SendText 404 ''Report not found''
                  | Some r \<Rightarrow> if r = [] then SendText 404 ''Report not found''
                              else ReportFile (sid s) r))
   \<and> route_get_list DbOk us (rl\<lparr>authorization := a\<rparr>) st =
     SubmissionList (map (\<lambda>s. (s, userEmail us s)) (find_submissions (body rl) st))
   \<and> (\<forall>r st' t. route_post_grade jwt_verify us dbu dbs now rg st = (r, st', t) \<longrightarrow>
        (\<exists>tok pid u. authorization rg = Some (''Bearer '' @ tok) \<and> jwt_verify tok = Some pid
                      \<and> us pid = Some u)
        \<or> (\<exists>m. r = ErrorJson 401 m) \<and> st' = st \<and> t = None)
   \<and> (\<forall>r st'. route_patch jwt_verify us dbu dbf dbs rp st = (r, st') \<longrightarrow>
        (\<exists>tok pid u. authorization rp = Some (''Bearer '' @ tok) \<and> jwt_verify tok = Some pid
                      \<and> us pid = Some u)
        \<or> (\<exists>m. r = ErrorJson 401 m) \<and> st' = st)
   \<and> (\<forall>r st'. route_delete jwt_verify us dbu dbf rq st = (r, st') \<longrightarrow>
        (\<exists>tok pid u. authorization rq = Some (''Bearer '' @ tok) \<and> jwt_verify tok = Some pid
                      \<and> us pid = Some u)
        \<or> (\<exists>m. r = ErrorJson 401 m) \<and> st' = st)"
proof -
  have unauth: "\<exists>m. r = ErrorJson 401 m"
    if "getUserFromToken jwt_verify us dbu h = Inl r" for h r
    using that
    by (auto simp: getUserFromToken_def split: option.splits if_splits db.splits)
  have g: "route_get_by_id DbOk (rq\<lparr>authorization := a\<rparr>) st =
     (case findById st (params_id rq) of
        None \<Rightarrow> ErrorJson 404 ''Submission not found'' | Some s \<Rightarrow> SubmissionJson s)"
    by (simp add: route_get_by_id_def)
  have rep: "route_get_report DbOk (rq\<lparr>authorization := a\<rparr>) st =
     (case findById st (params_id rq) of
        None \<Rightarrow> SendText 404 ''Report not found''
      | Some s \<Rightarrow> (case report s of
                    None \<Rightarrow> SendText 404 ''Report not found''
                  | Some r \<Rightarrow> if r = [] then SendText 404 ''Report not found''
                              else ReportFile (sid s) r))"
    by (simp add: route_get_report_def truthy_def split: option.splits)
  have l: "route_get_list DbOk us (rl\<lparr>authorization := a\<rparr>) st =
     SubmissionList (map (\<lambda>s. (s, userEmail us s)) (find_submissions (body rl) st))"
    by (simp add: route_get_list_def)
  have pg: "(\<exists>tok pid u. authorization rg = Some (''Bearer '' @ tok) \<and> jwt_verify tok = Some pid
                      \<and> us pid = Some u)
        \<or> (\<exists>m. r = ErrorJson 401 m) \<and> st' = st \<and> t = None"
    if "route_post_grade jwt_verify us dbu dbs now rg st = (r, st', t)" for r st' t
  proof (cases "getUserFromToken jwt_verify us dbu (authorization rg)")
    case (Inl x)
    with that unauth[OF Inl] show ?thesis by (auto simp: route_post_grade_def)
  next
    case (Inr u)
    from getUserFromToken_valid[OF Inr] show ?thesis by blast
  qed
  have pp: "(\<exists>tok pid u. authorization rp = Some (''Bearer '' @ tok) \<and> jwt_verify tok = Some pid
                      \<and> us pid = Some u)
        \<or> (\<exists>m. r = ErrorJson 401 m) \<and> st' = st"
    if "route_patch jwt_verify us dbu dbf dbs rp st = (r, st')" for r st'
  proof (cases "getUserFromToken jwt_verify us dbu (authorization rp)")
    case (Inl x)
    with that unauth[OF Inl] show ?thesis by (auto simp: route_patch_def)
  next
    case (Inr u)
    from getUserFromToken_valid[OF Inr] show ?thesis by blast
  qed
  have pd: "(\<exists>tok pid u. authorization rq = Some (''Bearer '' @ tok) \<and> jwt_verify tok = Some pid
                      \<and> us pid = Some u)
        \<or> (\<exists>m. r = ErrorJson 401 m) \<and> st' = st"
    if "route_delete jwt_verify us dbu dbf rq st = (r, st')" for r st'
  proof (cases "getUserFromToken jwt_verify us dbu (authorization rq)")
    case (Inl x)
    with that unauth[OF Inl] show ?thesis by (auto simp: route_delete_def)
  next
    case (Inr u)
    from getUserFromToken_valid[OF Inr] show ?thesis by blast
  qed
  show ?thesis using g rep l pg pp pd by blast
qed

theorem C10_witness:
  "route_get_by_id DbOk \<lparr>authorization = None, params_id = 7, body = ()\<rparr> [ex_done]
     = SubmissionJson ex_done
   \<and> route_get_report DbOk \<lparr>authorization = None, params_id = 7, body = ()\<rparr> [ex_done]
     = ReportFile 7 ''# Report''
   \<and> route_get_list DbOk ex_users
       \<lparr>authorization = None, params_id = 0,
        body = \<lparr>q_userId = None, q_status = None, q_limit = None, q_skip = None\<rparr>\<rparr> [ex_done]
     = SubmissionList [(ex_done, ''s@example.org'')]
   \<and> route_post_grade ex_jwt ex_users DbOk DbOk 5
       \<lparr>authorization = None, params_id = 0, body = ex_body\<rparr> [ex_done]
     = (ErrorJson 401 ''No token'', [ex_done], None)
   \<and> route_patch ex_jwt ex_users DbOk DbOk DbOk
       \<lparr>authorization = None, params_id = 7,
        body = \<lparr>p_status = Some ''failed'', p_grade = None, p_error = None\<rparr>\<rparr> [ex_done]
     = (ErrorJson 401 ''No token'', [ex_done])
   \<and> route_delete ex_jwt ex_users DbOk DbOk \<lparr>authorization = None, params_id = 7, body = ()\<rparr> [ex_done]
     = (ErrorJson 401 ''No token'', [ex_done])"
  using C10_reads_take_no_token[of None "\<lparr>authorization = None, params_id = 7, body = ()\<rparr>"
      "[ex_done]" ex_users
      "\<lparr>authorization = None, params_id = 0,
        body = \<lparr>q_userId = None, q_status = None, q_limit = None, q_skip = None\<rparr>\<rparr>"
      ex_jwt DbOk DbOk 5 "\<lparr>authorization = None, params_id = 0, body = ex_body\<rparr>"
      DbOk "\<lparr>authorization = None, params_id = 7,
        body = \<lparr>p_status = Some ''failed'', p_grade = None, p_error = None\<rparr>\<rparr>"]
  by (simp add: route_get_by_id_def route_get_report_def route_get_list_def route_post_grade_def
      route_patch_def route_delete_def getUserFromToken_def findById_def find_submissions_def
      matches_def truthy_def limit_docs_def userEmail_def ex_defs)

section \<open>Verification: the admission scheduler\<close>

lemma arrivals_snoc:
  "arrivals (evs @ [e]) = arrivals evs @ (case e of Arrive j \<Rightarrow> [j] | Finish j \<Rightarrow> [])"
  by (induction evs rule: arrivals.induct) (auto split: sched_event.splits)

lemma sched_inv_step:
  assumes "sched_inv n evs s"
  shows "sched_inv n (evs @ [e]) (sched_step s e)"
proof (cases e)
  case (Arrive j)
  with assms show ?thesis
    by (auto simp: sched_inv_def arrivals_snoc admit_def)
next
  case (Finish j)
  show ?thesis
  proof (cases "j \<in> set (running s)")
    case False
    with assms Finish show ?thesis
      by (simp add: sched_inv_def arrivals_snoc release_def)
  next
    case True
    then have "length (remove1 j (running s)) = length (running s) - 1" "length (running s) > 0"
      by (auto simp: length_remove1)
    with assms Finish True show ?thesis
      by (cases "queue s") (auto simp: sched_inv_def arrivals_snoc release_def)
  qed
qed

lemma sched_inv_run: "sched_inv n evs (sched_run n evs)"
proof (induction evs rule: rev_induct)
  case Nil
  show ?case by (simp add: sched_inv_def sched_run_def sched_init_def)
next
  case (snoc e evs)
  from sched_inv_step[OF snoc] show ?case by (simp add: sched_run_def)
qed

text \<open>
  Claim C1. After any sequence of arrivals and completions at most \<open>N\<close> jobs are in flight;
  the jobs started so far followed by the waiting ones are exactly the arrivals in their
  order, so no request is dropped and jobs start in arrival order; a job waits only while all
  \<open>N\<close> slots are taken. A request that finds a free slot starts at once, one that finds none
  joins the back of the queue, and a completion hands its slot to the front of the queue.
\<close>

theorem C1_admission_bounded_fifo:
  "length (running (sched_run n evs)) \<le> n
   \<and> started (sched_run n evs) @ queue (sched_run n evs) = arrivals evs
   \<and> (queue (sched_run n evs) \<noteq> [] \<longrightarrow> length (running (sched_run n evs)) = n)
   \<and> (length (running s) < limit s \<longrightarrow>
        running (admit j s) = running s @ [j] \<and> queue (admit j s) = queue s)
   \<and> (\<not> length (running s) < limit s \<longrightarrow>
        running (admit j s) = running s \<and> queue (admit j s) = queue s @ [j])
   \<and> (k \<in> set (running s) \<and> queue s = q # qs \<longrightarrow>
        running (release k s) = remove1 k (running s) @ [q] \<and> queue (release k s) = qs)"
  using sched_inv_run[of n evs]
  by (simp add: sched_inv_def admit_def release_def)

theorem C1_witness:
  "running (sched_run 2 [Arrive 1, Arrive 2, Arrive 3, Arrive 4, Finish 1, Finish 9, Finish 3]) = [2, 4]
   \<and> queue (sched_run 2 [Arrive 1, Arrive 2, Arrive 3, Arrive 4]) = [3, 4]
   \<and> running (sched_run 2 [Arrive 1, Arrive 2, Arrive 3, Arrive 4]) = [1, 2]
   \<and> started (sched_run 2 [Arrive 1, Arrive 2, Arrive 3, Arrive 4, Finish 1, Finish 9, Finish 3]) = [1, 2, 3, 4]"
  using C1_admission_bounded_fifo[of 2 "[Arrive 1, Arrive 2, Arrive 3, Arrive 4, Finish 1, Finish 9, Finish 3]"
      "sched_run 2 [Arrive 1, Arrive 2, Arrive 3]" 4 1 3 "[]"]
  by (simp add: sched_run_def sched_init_def admit_def release_def)

section \<open>Verification: the quality-analysis adapter\<close>

text \<open>
  The length guards of \<open>lex\<close> never fail: each token consumes input.
\<close>

lemma lex_string_shorter: "lex_string cs = Some (s, r) \<Longrightarrow> length r < length cs"
proof (induction cs arbitrary: s r rule: lex_string.induct)
  case 1
  then show ?case by simp
next
  case (2 c cs)
  then show ?case
    by (fastforce split: if_splits list.splits option.splits prod.splits)
qed

lemma lex_number_shorter: "lex_number (c # cs) = Some (m, e, r) \<Longrightarrow> length r \<le> length cs"
proof -
  have dw: "length (dropWhile P xs) \<le> length xs" for P and xs :: "nat list"
    by (induction xs) auto
  have i: "lex_int xs = Some (ip, r1) \<Longrightarrow> length r1 < length xs" for xs ip r1
    using dw[of is_digit "tl xs"]
    by (cases xs) (auto simp: lex_int_def split: if_splits)
  have f: "lex_frac xs = Some (fp, r1) \<Longrightarrow> length r1 \<le> length xs" for xs fp r1
    using dw[of is_digit "tl xs"] dw[of is_digit xs]
    by (cases xs) (auto simp: lex_frac_def split: if_splits)
  have x: "lex_exp xs = Some (ex, r1) \<Longrightarrow> length r1 \<le> length xs" for xs ex r1
    using dw[of is_digit "tl xs"] dw[of is_digit "tl (tl xs)"]
    by (cases xs) (auto simp: lex_exp_def Let_def split: if_splits list.splits prod.splits)
  assume a: "lex_number (c # cs) = Some (m, e, r)"
  then obtain ip r1 fp r2 ex where
    1: "lex_int (if c = 45 then cs else c # cs) = Some (ip, r1)" and
    2: "lex_frac r1 = Some (fp, r2)" and 3: "lex_exp r2 = Some (ex, r)"
    by (auto simp: lex_number_def Let_def split: if_splits option.splits prod.splits)
  from i[OF 1] f[OF 2] x[OF 3] show ?thesis by (auto split: if_splits)
qed

lemma lex_literal_shorter: "lex_literal (c # cs) = Some (t, r) \<Longrightarrow> length r \<le> length cs"
  by (auto simp: lex_literal_def split: if_splits)

lemma match_braces_span:
  assumes "123 \<notin> set pre" "125 \<notin> set post"
  shows "match_braces (pre @ 123 # mid @ 125 # post) = Some (123 # mid @ [125])"
proof -
  have 1: "dropWhile (\<lambda>c. c \<noteq> 123) (pre @ 123 # mid @ 125 # post) = 123 # mid @ 125 # post"
    using assms(1) by (auto simp: dropWhile_append3)
  have 2: "dropWhile (\<lambda>c. c \<noteq> 125) (rev (mid @ 125 # post)) = 125 # rev mid"
    using assms(2) by (auto simp: dropWhile_append3)
  show ?thesis
    by (simp add: match_braces_def 1 2 del: rev_append append_assoc)
qed

lemma try_body_Throws: "try_body ptype (Throws msg) = Inl msg"
  by (simp add: try_body_def)

text \<open>
  One call of the client sends at least one request and at most one more than
  \<open>maxRetries\<close>; it stops at the first attempt that is not retryable, or at the last one.
\<close>

lemma makeRequest_count:
  "Suc i \<le> snd (makeRequest k sv i p) \<and> snd (makeRequest k sv i p) \<le> Suc (i + k)"
proof (induction k arbitrary: i)
  case 0
  show ?case by simp
next
  case (Suc k)
  from Suc[of "Suc i"] show ?case by auto
qed

lemma makeRequest_stops:
  assumes "\<forall>t<j. shouldRetry (sv (i + t) p)" and "j \<le> k"
    and "j = k \<or> \<not> shouldRetry (sv (i + j) p)"
  shows "makeRequest k sv i p = (response_of (sv (i + j) p), Suc (i + j))"
  using assms
proof (induction k arbitrary: i j)
  case 0
  then show ?case by simp
next
  case (Suc k)
  show ?case
  proof (cases j)
    case 0
    with Suc.prems show ?thesis by simp
  next
    case (Suc j')
    with Suc.prems have r: "shouldRetry (sv i p)" by force
    have a: "\<forall>t<j'. shouldRetry (sv (Suc i + t) p)"
      using Suc.prems(1) \<open>j = Suc j'\<close> by (metis add_Suc_shift Suc_less_eq)
    have b: "j' \<le> k" using Suc.prems(2) \<open>j = Suc j'\<close> by simp
    have c: "j' = k \<or> \<not> shouldRetry (sv (Suc i + j') p)"
      using Suc.prems(3) \<open>j = Suc j'\<close> by simp
    from Suc.IH[OF a b c] r \<open>j = Suc j'\<close> show ?thesis by simp
  qed
qed

lemma rounding_examples:
  "rounds_to_zero 1 (- 400) \<and> rounds_to_zero 2 (- 324) \<and> \<not> rounds_to_zero 5 (- 324)
   \<and> \<not> rounds_to_zero 85 0 \<and> rounds_to_zero 0 3"
  by (simp add: rounds_to_zero_def)

text \<open>
  Claim C4, as amended. \<^verbatim>\<open>analyzeCode\<close> calls \<^verbatim>\<open>create\<close> exactly once and has no retry of
  its own. When the call throws, the result is the degraded one: every score is zero and
  the report is \<^verbatim>\<open>AI analysis failed:\<close> followed by the error's message; when the reply
  cannot be parsed, every score is zero and the report is \<^verbatim>\<open>No analysis provided\<close>; no
  branch of the operation throws. The client behind \<^verbatim>\<open>create\<close> sends between one and
  \<open>maxRetries + 1\<close> requests for that one call: it sends again after every retryable
  failure while retries remain, and the call throws only when the attempt it stops at
  fails.
\<close>

theorem C4_degrades_and_client_retries:
  "snd (analyzeCode buildPrompt create calls files ptype) = Suc calls
   \<and> (create calls (buildPrompt files) = Throws msg \<longrightarrow>
        analyzeCode buildPrompt create calls files ptype = (degraded ptype msg, Suc calls))
   \<and> list_all (\<lambda>v. v = JNumber 0 0) (scores_of (degraded ptype msg))
   \<and> report_of (degraded ptype msg) = JString (js ''AI analysis failed: '' @ msg)
   \<and> (create calls (buildPrompt files) = Returns (Some content # rest)
        \<and> safeJsonParse content = JObject [] \<longrightarrow>
        list_all (\<lambda>v. v = JNumber 0 0)
          (scores_of (fst (analyzeCode buildPrompt create calls files ptype)))
        \<and> report_of (fst (analyzeCode buildPrompt create calls files ptype))
            = JString (js ''No analysis provided''))
   \<and> 1 \<le> requests_sent maxRetries service n prompt
   \<and> requests_sent maxRetries service n prompt \<le> Suc maxRetries
   \<and> ((\<forall>t<j. shouldRetry (service n t prompt)) \<and> j \<le> maxRetries
        \<and> (j = maxRetries \<or> \<not> shouldRetry (service n j prompt)) \<longrightarrow>
        requests_sent maxRetries service n prompt = Suc j
        \<and> openai_create maxRetries service n prompt = response_of (service n j prompt))
   \<and> ((\<forall>t<maxRetries. shouldRetry (service calls t (buildPrompt files)))
        \<and> response_of (service calls maxRetries (buildPrompt files)) = Throws msg \<longrightarrow>
        analyzeCode buildPrompt (openai_create maxRetries service) calls files ptype
          = (degraded ptype msg, Suc calls)
        \<and> requests_sent maxRetries service calls (buildPrompt files) = Suc maxRetries)"
proof -
  have 1: "snd (analyzeCode buildPrompt create calls files ptype) = Suc calls" for create
    by (simp add: analyzeCode_def Let_def split: sum.splits)
  have 3: "create calls (buildPrompt files) = Throws msg \<longrightarrow>
        analyzeCode buildPrompt create calls files ptype = (degraded ptype msg, Suc calls)" for create
    by (simp add: analyzeCode_def Let_def try_body_Throws)
  have 4: "list_all (\<lambda>v. v = JNumber 0 0) (scores_of (degraded ptype msg))"
    by (simp add: degraded_def breakdown_of_def)
  have 5: "report_of (degraded ptype msg) = JString (js ''AI analysis failed: '' @ msg)"
    by (simp add: degraded_def)
  have 6: "create calls (buildPrompt files) = Returns (Some content # rest)
        \<and> safeJsonParse content = JObject [] \<longrightarrow>
        list_all (\<lambda>v. v = JNumber 0 0)
          (scores_of (fst (analyzeCode buildPrompt create calls files ptype)))
        \<and> report_of (fst (analyzeCode buildPrompt create calls files ptype))
            = JString (js ''No analysis provided'')"
    by (simp add: analyzeCode_def Let_def try_body_def read_analysis_def c_scores_def
        or_else_def breakdown_of_def)
  have 7: "1 \<le> requests_sent maxRetries service n prompt
     \<and> requests_sent maxRetries service n prompt \<le> Suc maxRetries"
    using makeRequest_count[of 0 maxRetries "service n" prompt]
    by (simp add: requests_sent_def)
  have 8: "(\<forall>t<j. shouldRetry (service n t prompt)) \<and> j \<le> maxRetries
        \<and> (j = maxRetries \<or> \<not> shouldRetry (service n j prompt)) \<longrightarrow>
        requests_sent maxRetries service n prompt = Suc j
        \<and> openai_create maxRetries service n prompt = response_of (service n j prompt)"
      for n prompt j
    using makeRequest_stops[of j "service n" 0 prompt maxRetries]
    by (auto simp: requests_sent_def openai_create_def)
  have 9: "(\<forall>t<maxRetries. shouldRetry (service calls t (buildPrompt files)))
        \<and> response_of (service calls maxRetries (buildPrompt files)) = Throws msg \<longrightarrow>
        analyzeCode buildPrompt (openai_create maxRetries service) calls files ptype
          = (degraded ptype msg, Suc calls)
        \<and> requests_sent maxRetries service calls (buildPrompt files) = Suc maxRetries"
    using 8[of maxRetries calls "buildPrompt files"]
      3[of "openai_create maxRetries service"] by auto
  from 1 3 4 5 6 7 8 9 show ?thesis by blast
qed

theorem C4_witness:
  \<open>analyzeCode (\<lambda>files. files)
      (openai_create DEFAULT_MAX_RETRIES
         (\<lambda>n i prompt. StatusError 401 None (js ''401 Incorrect API key provided'')))
      0 [] (Some ''express'')
     = (Analysis (JNumber 0 0) (JString (js ''AI analysis failed: 401 Incorrect API key provided'')), 1)
   \<and> requests_sent DEFAULT_MAX_RETRIES
        (\<lambda>n i prompt. StatusError 401 None (js ''401 Incorrect API key provided'')) 0 [] = 1
   \<and> analyzeCode (\<lambda>files. files)
        (openai_create DEFAULT_MAX_RETRIES (\<lambda>n i prompt. ConnectionError (js ''Connection error.'')))
        0 [] (Some ''c'')
     = (CAnalysis (JNumber 0 0) (JNumber 0 0) (JString (js ''AI analysis failed: Connection error.''))
          (breakdown_of (JNumber 0 0) (JNumber 0 0)), 1)
   \<and> analyzeCode (\<lambda>files. files) (\<lambda>n prompt. Returns [Some (js ''I cannot review this.'')])
        0 [] (Some ''express'')
     = (Analysis (JNumber 0 0) (JString (js ''No analysis provided'')), 1)\<close>
proof -
  have s: \<open>safeJsonParse (js ''I cannot review this.'') = JObject []\<close> by code_simp
  have a: \<open>analyzeCode (\<lambda>files. files)
      (openai_create DEFAULT_MAX_RETRIES
         (\<lambda>n i prompt. StatusError 401 None (js ''401 Incorrect API key provided'')))
      0 [] (Some ''express'')
     = (Analysis (JNumber 0 0) (JString (js ''AI analysis failed: 401 Incorrect API key provided'')), 1)
   \<and> requests_sent DEFAULT_MAX_RETRIES
        (\<lambda>n i prompt. StatusError 401 None (js ''401 Incorrect API key provided'')) 0 [] = 1\<close>
    using C4_degrades_and_client_retries[where buildPrompt = \<open>\<lambda>files. files\<close>
        and create = \<open>openai_create DEFAULT_MAX_RETRIES
         (\<lambda>n i prompt. StatusError 401 None (js ''401 Incorrect API key provided''))\<close>
        and service = \<open>\<lambda>n i prompt. StatusError 401 None (js ''401 Incorrect API key provided'')\<close>
        and maxRetries = DEFAULT_MAX_RETRIES and n = 0 and prompt = \<open>[]\<close> and j = 0
        and calls = 0 and files = \<open>[]\<close> and ptype = \<open>Some ''express''\<close>
        and msg = \<open>js ''401 Incorrect API key provided''\<close>]
    by (simp add: degraded_def js_def)
  have b: \<open>analyzeCode (\<lambda>files. files)
        (openai_create DEFAULT_MAX_RETRIES (\<lambda>n i prompt. ConnectionError (js ''Connection error.'')))
        0 [] (Some ''c'')
     = (CAnalysis (JNumber 0 0) (JNumber 0 0) (JString (js ''AI analysis failed: Connection error.''))
          (breakdown_of (JNumber 0 0) (JNumber 0 0)), 1)\<close>
    using C4_degrades_and_client_retries[where buildPrompt = \<open>\<lambda>files. files\<close>
        and service = \<open>\<lambda>n i prompt. ConnectionError (js ''Connection error.'')\<close>
        and maxRetries = DEFAULT_MAX_RETRIES
        and calls = 0 and files = \<open>[]\<close> and ptype = \<open>Some ''c''\<close>
        and msg = \<open>js ''Connection error.''\<close>]
    by (simp add: degraded_def js_def)
  have c: \<open>analyzeCode (\<lambda>files. files) (\<lambda>n prompt. Returns [Some (js ''I cannot review this.'')])
        0 [] (Some ''express'')
     = (Analysis (JNumber 0 0) (JString (js ''No analysis provided'')), 1)\<close>
    using s by (simp add: analyzeCode_def try_body_def read_analysis_def or_else_def)
  from a b c show ?thesis by blast
qed

text \<open>
  Claim C4 as stated fails on the number of invocations: with the client as constructed, a
  service that answers 500 receives three requests for one analysis, and a request that fails
  once is sent again, the analysis then succeeding undegraded.
\<close>

theorem C4_counterexample:
  \<open>requests_sent DEFAULT_MAX_RETRIES
      (\<lambda>n i prompt. StatusError 500 None (js ''500 status code (no body)'')) 0 [] = 3
   \<and> analyzeCode (\<lambda>files. files)
        (openai_create DEFAULT_MAX_RETRIES
           (\<lambda>n i prompt. StatusError 500 None (js ''500 status code (no body)'')))
        0 [] (Some ''express'')
     = (Analysis (JNumber 0 0) (JString (js ''AI analysis failed: 500 status code (no body)'')), 1)
   \<and> requests_sent DEFAULT_MAX_RETRIES
        (\<lambda>n i prompt. if i = 0 then ConnectionError (js ''Connection error.'')
                       else Reply [Some (js ''{"score": 85, "report": "fine"}'')]) 0 [] = 2
   \<and> analyzeCode (\<lambda>files. files)
        (openai_create DEFAULT_MAX_RETRIES
           (\<lambda>n i prompt. if i = 0 then ConnectionError (js ''Connection error.'')
                          else Reply [Some (js ''{"score": 85, "report": "fine"}'')]))
        0 [] (Some ''express'')
     = (Analysis (JNumber 85 0) (JString (js ''fine'')), 1)\<close>
  by code_simp

text \<open>
  Claim C7, as amended. \<^verbatim>\<open>safeJsonParse\<close> returns the direct decoding when it succeeds;
  otherwise it decodes the span from the first opening brace to the last closing brace of
  the text; when that fails too, or there is no such span, it returns the empty object. An
  object embedded in text is therefore extracted when no opening brace precedes it and no
  closing brace follows it.
\<close>

theorem C7_fallback_takes_first_to_last_brace:
  "(JSON_parse content = Some v \<longrightarrow> safeJsonParse content = v)
   \<and> (JSON_parse (pre @ 123 # mid @ 125 # post) = None \<and> 123 \<notin> set pre \<and> 125 \<notin> set post
        \<and> JSON_parse (123 # mid @ [125]) = Some v
      \<longrightarrow> safeJsonParse (pre @ 123 # mid @ 125 # post) = v)
   \<and> (JSON_parse content = None \<and> match_braces content = None \<longrightarrow> safeJsonParse content = JObject [])
   \<and> (JSON_parse content = None \<and> match_braces content = Some m \<and> JSON_parse m = None
      \<longrightarrow> safeJsonParse content = JObject [])
   \<and> (123 \<notin> set pre \<and> 125 \<notin> set post
      \<longrightarrow> match_braces (pre @ 123 # mid @ 125 # post) = Some (123 # mid @ [125]))"
  using match_braces_span[of pre post mid]
  by (simp add: safeJsonParse_def)

theorem C7_witness:
  \<open>safeJsonParse (js ''Here is the result: '' @ 123 # js ''"score": 85'' @ 125 # js ''. Bye.'')
     = JObject [(js ''score'', JNumber 85 0)]
   \<and> safeJsonParse (js '' {"score": 85} '') = JObject [(js ''score'', JNumber 85 0)]
   \<and> safeJsonParse (js ''no analysis today'') = JObject []\<close>
proof -
  have h1: \<open>JSON_parse (js ''Here is the result: '' @ 123 # js ''"score": 85'' @ 125 # js ''. Bye.'') = None\<close>
    by code_simp
  have h2: \<open>123 \<notin> set (js ''Here is the result: '')\<close> by code_simp
  have h3: \<open>125 \<notin> set (js ''. Bye.'')\<close> by code_simp
  have h4: \<open>JSON_parse (123 # js ''"score": 85'' @ [125]) = Some (JObject [(js ''score'', JNumber 85 0)])\<close>
    by code_simp
  have h5: \<open>JSON_parse (js '' {"score": 85} '') = Some (JObject [(js ''score'', JNumber 85 0)])\<close>
    by code_simp
  have h6: \<open>JSON_parse (js ''no analysis today'') = None\<close> by code_simp
  have h7: \<open>match_braces (js ''no analysis today'') = None\<close> by code_simp
  have a: \<open>safeJsonParse (js ''Here is the result: '' @ 123 # js ''"score": 85'' @ 125 # js ''. Bye.'')
     = JObject [(js ''score'', JNumber 85 0)]\<close>
    using C7_fallback_takes_first_to_last_brace[where pre = \<open>js ''Here is the result: ''\<close>
        and mid = \<open>js ''"score": 85''\<close> and post = \<open>js ''. Bye.''\<close>
        and v = \<open>JObject [(js ''score'', JNumber 85 0)]\<close>]
      h1 h2 h3 h4 by blast
  have b: \<open>safeJsonParse (js '' {"score": 85} '') = JObject [(js ''score'', JNumber 85 0)]\<close>
    using C7_fallback_takes_first_to_last_brace[where content = \<open>js '' {"score": 85} ''\<close>
        and v = \<open>JObject [(js ''score'', JNumber 85 0)]\<close>] h5 by blast
  have c: \<open>safeJsonParse (js ''no analysis today'') = JObject []\<close>
    using C7_fallback_takes_first_to_last_brace[where content = \<open>js ''no analysis today''\<close>] h6 h7 by blast
  from a b c show ?thesis by blast
qed

text \<open>
  Claim C7 as stated fails when the surrounding text has braces of its own: the span from the
  first to the last brace is not the embedded object, and the result is empty.
\<close>

theorem C7_counterexample:
  \<open>safeJsonParse (js ''Here is the result: '' @ js ''{"score": 85}'' @ js ''. Use {braces} wisely.'')
     = JObject []
   \<and> JSON_parse (js ''{"score": 85}'') = Some (JObject [(js ''score'', JNumber 85 0)])
   \<and> match_braces (js ''Here is the result: '' @ js ''{"score": 85}'' @ js ''. Use {braces} wisely.'')
     = Some (js ''{"score": 85}. Use {braces}'')\<close>
  by code_simp

text \<open>
  Claim C8 against the code. For a project that is not of type \<open>c\<close> the score is
  \<^verbatim>\<open>analysis.score || 0\<close>: a score that is a non-empty string passes into the result
  unchanged. The branch for \<open>c\<close> projects tests the type of both scores and puts zero for
  both when one is not a number.
\<close>

theorem C8_string_score_not_coerced:
  \<open>analyzeCode (\<lambda>files. files) (\<lambda>n prompt. Returns [Some (js ''{"score": "85", "report": "ok"}'')])
       0 [] (Some ''express'')
     = (Analysis (JString (js ''85'')) (JString (js ''ok'')), 1)
   \<and> analyzeCode (\<lambda>files. files)
       (\<lambda>n prompt. Returns [Some (js ''{"codeSmellScore": 40, "codeQualityScore": "85", "report": "ok"}'')])
       0 [] (Some ''c'')
     = (CAnalysis (JNumber 0 0) (JNumber 0 0) (JString (js ''ok''))
          (breakdown_of (JNumber 0 0) (JNumber 0 0)), 1)\<close>
  by code_simp

text \<open>
  Claim C9, as amended. \<^verbatim>\<open>sanitizeCode\<close> removes the code units 0 to 9, 11 to 31 and 127
  and keeps every other one, the line feed among them, in order. Sanitized content of more
  than 10000 code units is cut to its first 10000, followed by the marker of 19 code units;
  shorter content is included whole. The entry of a file is a comment line with its path,
  that content, and two line feeds; a file that cannot be read contributes nothing.
\<close>

theorem C9_sanitized_and_capped:
  "(\<forall>c \<in> set (sanitizeCode code). c = 10 \<or> (32 \<le> c \<and> c \<noteq> 127))
   \<and> filter (\<lambda>c. c = 10 \<or> (32 \<le> c \<and> c \<noteq> 127)) code = sanitizeCode code
   \<and> (length (sanitizeCode raw) \<le> 10000 \<longrightarrow> file_content raw = sanitizeCode raw)
   \<and> (10000 < length (sanitizeCode raw) \<longrightarrow>
        file_content raw = take 10000 (sanitizeCode raw) @ truncation_marker)
   \<and> length (file_content raw) \<le> 10000 + length truncation_marker
   \<and> length truncation_marker = 19
   \<and> (readFile fpath = Some raw \<longrightarrow>
        file_entry readFile fpath = js ''// '' @ fpath @ [10] @ file_content raw @ [10, 10])
   \<and> (readFile fpath = None \<longrightarrow> file_entry readFile fpath = [])"
proof -
  have 1: "\<forall>c \<in> set (sanitizeCode code). c = 10 \<or> (32 \<le> c \<and> c \<noteq> 127)"
    by (auto simp: sanitizeCode_def)
  have 2: "filter (\<lambda>c. c = 10 \<or> (32 \<le> c \<and> c \<noteq> 127)) code = sanitizeCode code"
    unfolding sanitizeCode_def by (rule filter_cong) auto
  have 3: "length (sanitizeCode raw) \<le> 10000 \<longrightarrow> file_content raw = sanitizeCode raw"
    by (simp add: file_content_def Let_def)
  have 4: "10000 < length (sanitizeCode raw) \<longrightarrow>
        file_content raw = take 10000 (sanitizeCode raw) @ truncation_marker"
    by (simp add: file_content_def Let_def)
  have 5: "length (file_content raw) \<le> 10000 + length truncation_marker"
    by (simp add: file_content_def Let_def)
  have 6: "length truncation_marker = 19"
    by (simp add: truncation_marker_def js_def)
  have 7: "readFile fpath = Some raw \<longrightarrow>
        file_entry readFile fpath = js ''// '' @ fpath @ [10] @ file_content raw @ [10, 10]"
    by (simp add: file_entry_def)
  have 8: "readFile fpath = None \<longrightarrow> file_entry readFile fpath = []"
    by (simp add: file_entry_def)
  from 1 2 3 4 5 6 7 8 show ?thesis by blast
qed

theorem C9_witness:
  "sanitizeCode [97, 9, 13, 98, 127, 10, 0, 99] = [97, 98, 10, 99]
   \<and> file_content (replicate 10001 120) = replicate 10000 120 @ 10 # js ''// ...truncated...''
   \<and> file_content [120, 27, 121] = [120, 121]
   \<and> file_entry (\<lambda>f. Some [120, 27, 121]) (js ''a.js'') = js ''// a.js'' @ [10, 120, 121, 10, 10]"
proof -
  have a: "sanitizeCode [97, 9, 13, 98, 127, 10, 0, 99] = [97, 98, 10, 99]"
    by (simp add: sanitizeCode_def)
  have s: "sanitizeCode (replicate 10001 120) = replicate 10001 120"
    by (simp add: sanitizeCode_def)
  have t: "sanitizeCode [120, 27, 121] = [120, 121]"
    by (simp add: sanitizeCode_def)
  have b: "file_content (replicate 10001 120) = replicate 10000 120 @ 10 # js ''// ...truncated...''"
    using C9_sanitized_and_capped[where raw = "replicate 10001 120"] s
    by (simp add: truncation_marker_def)
  have c: "file_content [120, 27, 121] = [120, 121]"
    using C9_sanitized_and_capped[where raw = "[120, 27, 121]"] t by simp
  have d: "file_entry (\<lambda>f. Some [120, 27, 121]) (js ''a.js'') = js ''// a.js'' @ [10, 120, 121, 10, 10]"
    using C9_sanitized_and_capped[where raw = "[120, 27, 121]" and readFile = "\<lambda>f. Some [120, 27, 121]"
        and fpath = "js ''a.js''"] c
    by (simp add: js_def)
  from a b c d show ?thesis by blast
qed

text \<open>
  Claim C9 as stated fails twice: the line feed is a control character and is kept, and the
  entry of a file of 10001 characters is longer than the cap and the marker together.
\<close>

theorem C9_counterexample:
  "sanitizeCode [97, 10, 98] = [97, 10, 98]
   \<and> is_control 10
   \<and> length (file_entry (\<lambda>f. Some (replicate 10001 120)) [97]) = 10026
   \<and> 10000 + length truncation_marker = 10019"
  by (simp add: sanitizeCode_def is_control_def file_entry_def file_content_def
      truncation_marker_def js_def)

end
